theory Spec2Isabelle
  imports Main "HOL-Library.Product_Lexorder"
begin

section \<open>Strings, digits and whitespace\<close>

text \<open>
  A Python \<open>str\<close> is modelled as a \<open>string\<close> whose characters are the code points below
  256. On that range \<open>\d\<close> (and \<open>int\<close>) know the ten ASCII digits only, and
  \<open>str.strip\<close> and \<open>\s\<close> agree on the whitespace set below.
\<close>

definition is_digit :: "char \<Rightarrow> bool" where
  "is_digit c \<longleftrightarrow> c \<in> set ''0123456789''"

definition digit_val :: "char \<Rightarrow> nat" where
  "digit_val c = of_char c - 48"

definition digit_char :: "nat \<Rightarrow> char" where
  "digit_char n = ''0123456789'' ! (n mod 10)"

definition is_space :: "char \<Rightarrow> bool" where
  "is_space c \<longleftrightarrow>
     (of_char c :: nat) \<in> {9, 10, 11, 12, 13, 28, 29, 30, 31, 32, 133, 160}"

text \<open>\<open>int(s)\<close> on a string of digits.\<close>

definition py_int :: "string \<Rightarrow> nat" where
  "py_int s = foldl (\<lambda>n c. 10 * n + digit_val c) 0 s"

text \<open>\<open>s.strip()\<close>.\<close>

definition py_strip :: "string \<Rightarrow> string" where
  "py_strip s = rev (dropWhile is_space (rev (dropWhile is_space s)))"

text \<open>\<open>sep.join(xs)\<close>.\<close>

fun py_join :: "string \<Rightarrow> string list \<Rightarrow> string" where
  "py_join sep [] = []"
| "py_join sep [x] = x"
| "py_join sep (x # y # ys) = x @ sep @ py_join sep (y # ys)"

text \<open>\<open>s.split(c)\<close> for a one-character separator.\<close>

fun py_split :: "char \<Rightarrow> string \<Rightarrow> string list" where
  "py_split c [] = [[]]"
| "py_split c (x # xs) =
     (if x = c then [] # py_split c xs
      else (case py_split c xs of [] \<Rightarrow> [[x]] | p # ps \<Rightarrow> (x # p) # ps))"

text \<open>Decimal output: \<open>str(n)\<close>, and the zero padded \<open>{n:02d}\<close>, \<open>%Y\<close>, \<open>%m\<close>, ...\<close>

fun py_dec :: "nat \<Rightarrow> string" where
  "py_dec n = (if n < 10 then [digit_char n] else py_dec (n div 10) @ [digit_char n])"

definition zpad :: "nat \<Rightarrow> nat \<Rightarrow> string" where
  "zpad w n = replicate (w - length (py_dec n)) CHR ''0'' @ py_dec n"

section \<open>Naive date-times\<close>

record datetime =
  year :: nat
  month :: nat
  day :: nat
  hour :: nat
  minute :: nat
  second :: nat
  microsecond :: nat

definition mk_datetime :: "nat \<Rightarrow> nat \<Rightarrow> nat \<Rightarrow> nat \<Rightarrow> nat \<Rightarrow> datetime" where
  "mk_datetime y m d hh mm =
     \<lparr>year = y, month = m, day = d, hour = hh, minute = mm, second = 0, microsecond = 0\<rparr>"

definition is_leap :: "nat \<Rightarrow> bool" where
  "is_leap y \<longleftrightarrow> y mod 4 = 0 \<and> (y mod 100 \<noteq> 0 \<or> y mod 400 = 0)"

definition days_in_month :: "nat \<Rightarrow> nat \<Rightarrow> nat" where
  "days_in_month y m =
     (if m = 2 then (if is_leap y then 29 else 28)
      else if m = 4 \<or> m = 6 \<or> m = 9 \<or> m = 11 then 30 else 31)"

text \<open>The constructor's range check (\<open>ValueError\<close> outside it).\<close>

definition valid_date :: "nat \<Rightarrow> nat \<Rightarrow> nat \<Rightarrow> bool" where
  "valid_date y m d \<longleftrightarrow>
     1 \<le> y \<and> y \<le> 9999 \<and> 1 \<le> m \<and> m \<le> 12 \<and> 1 \<le> d \<and> d \<le> days_in_month y m"

text \<open>Comparison of two naive date-times is the comparison of their field tuples.\<close>

definition dt_key :: "datetime \<Rightarrow> nat \<times> nat \<times> nat \<times> nat \<times> nat \<times> nat \<times> nat" where
  "dt_key t = (year t, month t, day t, hour t, minute t, second t, microsecond t)"

definition dt_less :: "datetime \<Rightarrow> datetime \<Rightarrow> bool" where
  "dt_less a b \<longleftrightarrow> dt_key a < dt_key b"

text \<open>
  \<open>t + timedelta(days=n, minutes=k)\<close>: the wall clock moves on by carrying into the next
  day, month and year; a result after year 9999 is an \<open>OverflowError\<close> (\<open>None\<close>).
\<close>

definition next_day :: "datetime \<Rightarrow> datetime" where
  "next_day t =
     (if day t < days_in_month (year t) (month t) then t\<lparr>day := day t + 1\<rparr>
      else if month t < 12 then t\<lparr>month := month t + 1, day := 1\<rparr>
      else t\<lparr>year := year t + 1, month := 1, day := 1\<rparr>)"

definition plus_timedelta :: "datetime \<Rightarrow> nat \<Rightarrow> nat \<Rightarrow> datetime option" where
  "plus_timedelta t days minutes =
     (let total = hour t * 60 + minute t + minutes;
          t' = ((next_day ^^ (days + total div 1440))
                  (t\<lparr>hour := (total mod 1440) div 60, minute := total mod 60\<rparr>))
      in if year t' > 9999 then None else Some t')"

text \<open>\<open>t.strftime("%Y-%m-%d")\<close> and \<open>t.strftime("%H:%M")\<close>.\<close>

definition strftime_date :: "datetime \<Rightarrow> string" where
  "strftime_date t = zpad 4 (year t) @ ''-'' @ zpad 2 (month t) @ ''-'' @ zpad 2 (day t)"

definition strftime_time :: "datetime \<Rightarrow> string" where
  "strftime_time t = zpad 2 (hour t) @ '':'' @ zpad 2 (minute t)"

section \<open>\<open>datetime.strptime\<close>\<close>

text \<open>
  \<open>strptime\<close> turns the format into a regular expression, one group per directive, matches
  it at the start of the data (alternatives in order, with backtracking), and then rejects
  data left over after the first match. A regular expression is modelled by the list of
  its matches at the start of a string, in the order the matcher tries them: each entry is
  the value read and the rest of the string.
\<close>

datatype directive = DirY | Dirm | Dird | DirH | DirM | Lit char | Spaces

definition in_range :: "char \<Rightarrow> char \<Rightarrow> char \<Rightarrow> bool" where
  "in_range lo hi c \<longleftrightarrow> (of_char lo :: nat) \<le> of_char c \<and> (of_char c :: nat) \<le> of_char hi"

definition two_chars :: "(char \<Rightarrow> bool) \<Rightarrow> (char \<Rightarrow> bool) \<Rightarrow> string \<Rightarrow> (nat \<times> string) list" where
  "two_chars P Q s =
     (case s of a # b # r \<Rightarrow> if P a \<and> Q b then [(10 * digit_val a + digit_val b, r)] else []
      | _ \<Rightarrow> [])"

definition one_char :: "(char \<Rightarrow> bool) \<Rightarrow> string \<Rightarrow> (nat \<times> string) list" where
  "one_char P s = (case s of a # r \<Rightarrow> if P a then [(digit_val a, r)] else [] | _ \<Rightarrow> [])"

text \<open>\<open>%Y\<close> is \<open>\d\d\d\d\<close>.\<close>

definition rx_Y :: "string \<Rightarrow> (nat \<times> string) list" where
  "rx_Y s =
     (case s of a # b # c # d # r \<Rightarrow>
        if is_digit a \<and> is_digit b \<and> is_digit c \<and> is_digit d then [(py_int [a, b, c, d], r)] else []
      | _ \<Rightarrow> [])"

text \<open>\<open>%m\<close> is \<open>1[0-2]|0[1-9]|[1-9]\<close>.\<close>

definition rx_m :: "string \<Rightarrow> (nat \<times> string) list" where
  "rx_m s =
     two_chars (\<lambda>c. c = CHR ''1'') (in_range CHR ''0'' CHR ''2'') s
     @ two_chars (\<lambda>c. c = CHR ''0'') (in_range CHR ''1'' CHR ''9'') s
     @ one_char (in_range CHR ''1'' CHR ''9'') s"

text \<open>\<open>%d\<close> is \<open>3[0-1]|[1-2]\d|0[1-9]|[1-9]| [1-9]\<close>.\<close>

definition rx_d :: "string \<Rightarrow> (nat \<times> string) list" where
  "rx_d s =
     two_chars (\<lambda>c. c = CHR ''3'') (in_range CHR ''0'' CHR ''1'') s
     @ two_chars (in_range CHR ''1'' CHR ''2'') is_digit s
     @ two_chars (\<lambda>c. c = CHR ''0'') (in_range CHR ''1'' CHR ''9'') s
     @ one_char (in_range CHR ''1'' CHR ''9'') s
     @ (case s of a # r \<Rightarrow> if a = CHR '' '' then one_char (in_range CHR ''1'' CHR ''9'') r else []
        | _ \<Rightarrow> [])"

text \<open>\<open>%H\<close> is \<open>2[0-3]|[0-1]\d|\d\<close>.\<close>

definition rx_H :: "string \<Rightarrow> (nat \<times> string) list" where
  "rx_H s =
     two_chars (\<lambda>c. c = CHR ''2'') (in_range CHR ''0'' CHR ''3'') s
     @ two_chars (in_range CHR ''0'' CHR ''1'') is_digit s
     @ one_char is_digit s"

text \<open>\<open>%M\<close> is \<open>[0-5]\d|\d\<close>.\<close>

definition rx_M :: "string \<Rightarrow> (nat \<times> string) list" where
  "rx_M s = two_chars (in_range CHR ''0'' CHR ''5'') is_digit s @ one_char is_digit s"

text \<open>\<open>\s*\<close>, greedy: the rests after the whitespace taken, the longest run first.\<close>

fun rx_spaces_star :: "string \<Rightarrow> string list" where
  "rx_spaces_star [] = [[]]"
| "rx_spaces_star (c # r) = (if is_space c then rx_spaces_star r @ [c # r] else [c # r])"

text \<open>A run of whitespace in the format is \<open>\s+\<close>.\<close>

definition rx_spaces_plus :: "string \<Rightarrow> string list" where
  "rx_spaces_plus s = (case s of c # r \<Rightarrow> if is_space c then rx_spaces_star r else [] | _ \<Rightarrow> [])"

record fields =
  f_year :: nat
  f_month :: nat
  f_day :: nat
  f_hour :: nat
  f_minute :: nat

definition no_fields :: fields where
  "no_fields = \<lparr>f_year = 1900, f_month = 1, f_day = 1, f_hour = 0, f_minute = 0\<rparr>"

fun rx_directive :: "directive \<Rightarrow> fields \<Rightarrow> string \<Rightarrow> (fields \<times> string) list" where
  "rx_directive DirY f s = map (\<lambda>(v, r). (f\<lparr>f_year := v\<rparr>, r)) (rx_Y s)"
| "rx_directive Dirm f s = map (\<lambda>(v, r). (f\<lparr>f_month := v\<rparr>, r)) (rx_m s)"
| "rx_directive Dird f s = map (\<lambda>(v, r). (f\<lparr>f_day := v\<rparr>, r)) (rx_d s)"
| "rx_directive DirH f s = map (\<lambda>(v, r). (f\<lparr>f_hour := v\<rparr>, r)) (rx_H s)"
| "rx_directive DirM f s = map (\<lambda>(v, r). (f\<lparr>f_minute := v\<rparr>, r)) (rx_M s)"
| "rx_directive (Lit c) f s = (case s of a # r \<Rightarrow> if a = c then [(f, r)] else [] | _ \<Rightarrow> [])"
| "rx_directive Spaces f s = map (\<lambda>r. (f, r)) (rx_spaces_plus s)"

fun rx_format :: "directive list \<Rightarrow> fields \<Rightarrow> string \<Rightarrow> (fields \<times> string) list" where
  "rx_format [] f s = [(f, s)]"
| "rx_format (d # ds) f s = concat (map (\<lambda>(f', r). rx_format ds f' r) (rx_directive d f s))"

text \<open>
  \<open>datetime.strptime(data, format)\<close>; \<open>None\<close> is its \<open>ValueError\<close>: no match, data left
  over after the match, or a date that does not exist.
\<close>

definition strptime :: "string \<Rightarrow> directive list \<Rightarrow> datetime option" where
  "strptime s fmt =
     (case rx_format fmt no_fields s of
        [] \<Rightarrow> None
      | (f, r) # _ \<Rightarrow>
          if r \<noteq> [] then None
          else if valid_date (f_year f) (f_month f) (f_day f)
          then Some (mk_datetime (f_year f) (f_month f) (f_day f) (f_hour f) (f_minute f))
          else None)"

text \<open>The formats of the source: \<open>%Y-%m-%d\<close>, \<open>%Y/%m/%d\<close>, \<open>%d-%m-%Y\<close>, \<open>%d/%m/%Y\<close>
  and \<open>%Y-%m-%d %H:%M\<close>.\<close>

definition fmt_Ymd_dash :: "directive list" where
  "fmt_Ymd_dash = [DirY, Lit CHR ''-'', Dirm, Lit CHR ''-'', Dird]"

definition fmt_Ymd_slash :: "directive list" where
  "fmt_Ymd_slash = [DirY, Lit CHR ''/'', Dirm, Lit CHR ''/'', Dird]"

definition fmt_dmY_dash :: "directive list" where
  "fmt_dmY_dash = [Dird, Lit CHR ''-'', Dirm, Lit CHR ''-'', DirY]"

definition fmt_dmY_slash :: "directive list" where
  "fmt_dmY_slash = [Dird, Lit CHR ''/'', Dirm, Lit CHR ''/'', DirY]"

definition fmt_Ymd_HM :: "directive list" where
  "fmt_Ymd_HM = fmt_Ymd_dash @ [Spaces, DirH, Lit CHR '':'', DirM]"

section \<open>\<open>utils/helpers.py\<close>\<close>

definition formats :: "directive list list" where
  "formats = [fmt_Ymd_dash, fmt_Ymd_slash, fmt_dmY_dash, fmt_dmY_slash]"

text \<open>The loop of \<open>parse_date\<close>: \<open>return\<close> at the first format that parses, \<open>continue\<close> on
  \<open>ValueError\<close>, \<open>None\<close> after the last.\<close>

fun parse_date_loop :: "directive list list \<Rightarrow> string \<Rightarrow> datetime option" where
  "parse_date_loop [] date_str = None"
| "parse_date_loop (fmt # fmts) date_str =
     (case strptime date_str fmt of
        Some t \<Rightarrow> Some t
      | None \<Rightarrow> parse_date_loop fmts date_str)"

definition parse_date :: "string \<Rightarrow> datetime option" where
  "parse_date date_str = parse_date_loop formats date_str"

text \<open>The regular expressions of \<open>parse_time\<close>, as lists of matches like those above;
  the groups are the strings matched.\<close>

text \<open>\<open>\d{1,2}\<close>, greedy: two digits are tried before one.\<close>

definition rx_digits_1_2 :: "string \<Rightarrow> (string \<times> string) list" where
  "rx_digits_1_2 s =
     (case s of
        a # b # r \<Rightarrow>
          if is_digit a \<and> is_digit b then [([a, b], r), ([a], b # r)]
          else if is_digit a then [([a], b # r)] else []
      | [a] \<Rightarrow> if is_digit a then [([a], [])] else []
      | [] \<Rightarrow> [])"

text \<open>\<open>\d{2}\<close>.\<close>

definition rx_digits_2 :: "string \<Rightarrow> (string \<times> string) list" where
  "rx_digits_2 s =
     (case s of a # b # r \<Rightarrow> if is_digit a \<and> is_digit b then [([a, b], r)] else [] | _ \<Rightarrow> [])"

text \<open>A literal string.\<close>

definition rx_lit :: "string \<Rightarrow> string \<Rightarrow> string list" where
  "rx_lit w s = (if take (length w) s = w then [drop (length w) s] else [])"

text \<open>\<open>(AM|PM|am|pm)\<close>.\<close>

definition rx_period :: "string \<Rightarrow> (string \<times> string) list" where
  "rx_period s = concat (map (\<lambda>w. map (\<lambda>r. (w, r)) (rx_lit w s)) [''AM'', ''PM'', ''am'', ''pm''])"

text \<open>
  \<open>re.match(r'^\d{1,2}:\d{2}$', s)\<close>. The string matched has been stripped, so it has no
  final newline and \<open>$\<close> is the end of the string.
\<close>

definition re_match_24 :: "string \<Rightarrow> bool" where
  "re_match_24 s \<longleftrightarrow>
     (case [r3. (h, r1) \<leftarrow> rx_digits_1_2 s, r2 \<leftarrow> rx_lit '':'' r1, (m, r3) \<leftarrow> rx_digits_2 r2,
                r3 = []] of
        [] \<Rightarrow> False
      | _ # _ \<Rightarrow> True)"

text \<open>
  \<open>re.match(r'^(\d{1,2}):?(\d{2})?\s*(AM|PM|am|pm)$', s)\<close>: the groups of the first match.
  An optional part is tried present before absent.
\<close>

definition re_match_12 :: "string \<Rightarrow> (string \<times> string option \<times> string) option" where
  "re_match_12 s =
     (case [(g1, g2, g3).
              (g1, r1) \<leftarrow> rx_digits_1_2 s,
              r2 \<leftarrow> rx_lit '':'' r1 @ [r1],
              (g2, r3) \<leftarrow> map (\<lambda>(g, r). (Some g, r)) (rx_digits_2 r2) @ [(None, r2)],
              r4 \<leftarrow> rx_spaces_star r3,
              (g3, r5) \<leftarrow> rx_period r4,
              r5 = []] of
        [] \<Rightarrow> None
      | g # _ \<Rightarrow> Some g)"

text \<open>\<open>s.upper()\<close> and \<open>s.lower()\<close> on code points below 256 (the letters that have their
  other case in that range).\<close>

definition py_upper_char :: "char \<Rightarrow> char" where
  "py_upper_char c =
     (let n = (of_char c :: nat)
      in if (97 \<le> n \<and> n \<le> 122) \<or> (224 \<le> n \<and> n \<le> 254 \<and> n \<noteq> 247) then char_of (n - 32) else c)"

definition py_lower_char :: "char \<Rightarrow> char" where
  "py_lower_char c =
     (let n = (of_char c :: nat)
      in if (65 \<le> n \<and> n \<le> 90) \<or> (192 \<le> n \<and> n \<le> 222 \<and> n \<noteq> 215) then char_of (n + 32) else c)"

definition py_lower :: "string \<Rightarrow> string" where
  "py_lower s = map py_lower_char s"

text \<open>The period of a match is one of \<open>AM\<close>, \<open>PM\<close>, \<open>am\<close>, \<open>pm\<close>, where \<open>upper\<close> is this.\<close>

definition py_upper :: "string \<Rightarrow> string" where
  "py_upper s = map py_upper_char s"

definition hh_mm :: "nat \<Rightarrow> nat \<Rightarrow> string" where
  "hh_mm h m = zpad 2 h @ '':'' @ zpad 2 m"

definition parse_time :: "string \<Rightarrow> string option" where
  "parse_time time_str0 =
     (let time_str = py_strip time_str0;
          r24 =
            (if re_match_24 time_str then
               (case py_split CHR '':'' time_str of
                  p0 # p1 # _ \<Rightarrow>
                    (let hour = py_int p0; minute = py_int p1
                     in if hour \<le> 23 \<and> minute \<le> 59 then Some (hh_mm hour minute) else None)
                | _ \<Rightarrow> None)
             else None)
      in case r24 of
           Some r \<Rightarrow> Some r
         | None \<Rightarrow>
             (case re_match_12 time_str of
                None \<Rightarrow> None
              | Some (g1, g2, g3) \<Rightarrow>
                  (let hour0 = py_int g1;
                       minute = (case g2 of Some g \<Rightarrow> py_int g | None \<Rightarrow> 0);
                       period = py_upper g3;
                       hour = (if period = ''PM'' \<and> hour0 \<noteq> 12 then hour0 + 12
                               else if period = ''AM'' \<and> hour0 = 12 then 0
                               else hour0)
                   in if hour \<le> 23 \<and> minute \<le> 59 then Some (hh_mm hour minute) else None)))"

text \<open>\<open>is_future_datetime\<close>, with the clock reading \<open>now\<close> made an argument; the bare
  \<open>except\<close> turns a failed parse into \<open>False\<close>.\<close>

definition is_future_datetime :: "datetime \<Rightarrow> string \<Rightarrow> string \<Rightarrow> bool" where
  "is_future_datetime now date_str time_str =
     (case strptime (date_str @ '' '' @ time_str) fmt_Ymd_HM of
        None \<Rightarrow> False
      | Some dt \<Rightarrow> dt_less now dt)"

section \<open>\<open>integrations/google_calendar_service.py\<close>\<close>

text \<open>The local meeting dictionary. A key that a path does not set is \<open>None\<close>.\<close>

record meeting =
  m_id :: "string option"
  m_title :: string
  m_date :: string
  m_time :: string
  m_participants :: "string list"
  m_description :: string
  m_created_at :: "datetime option"
  m_google_event_id :: "string option"
  m_synced_to_google :: bool
  m_google_link :: "string option"
  m_meet_link :: "string option"

text \<open>An event as the provider returns it: the keys the adapter reads.\<close>

record attendee =
  a_displayName :: "string option"
  a_email :: "string option"

record gevent =
  g_id :: "string option"
  g_summary :: "string option"
  g_description :: "string option"
  g_start_dateTime :: "string option"
  g_start_date :: "string option"
  g_attendees :: "attendee list"
  g_local_id :: "string option"
  g_htmlLink :: "string option"
  g_hangoutLink :: "string option"

text \<open>The event body the adapter sends.\<close>

record gbody =
  b_summary :: string
  b_description :: string
  b_start_dateTime :: string
  b_start_timeZone :: string
  b_end_dateTime :: string
  b_end_timeZone :: string
  b_reminders_useDefault :: bool
  b_reminders_overrides :: "(string \<times> nat) list"
  b_local_id :: "string option"
  b_created_by :: string
  b_attendees :: "string list option"
  b_conference_requestId :: "string option"

datatype exn = ValueError | OverflowError | TypeError | RuntimeError | OtherException

text \<open>What \<open>.execute()\<close> of a provider request does: it returns, raises \<open>HttpError\<close> with a
  status, or raises something else.\<close>

datatype 'a api = Returns 'a | HttpError nat | Raises exn

text \<open>
  Everything a handler reads from outside: the clock, the state of the service singleton,
  the configuration, the fresh identifier, the text of an exception, and the provider's
  answer to each request. \<open>enable_conflict_detection\<close> is
  \<open>GOOGLE_CALENDAR_CONFIG.get("enable_conflict_detection", True)\<close>.
\<close>

record env =
  now :: datetime
  is_enabled :: bool
  enable_conflict_detection :: bool
  add_conference_link :: bool
  default_reminder_minutes :: nat
  generate_meeting_id :: string
  exn_str :: "exn \<Rightarrow> string"
  events_list :: "datetime \<Rightarrow> datetime \<Rightarrow> gevent list api"
  events_insert :: "gbody \<Rightarrow> gevent api"
  events_update :: "string \<Rightarrow> gbody \<Rightarrow> unit api"
  events_delete :: "string \<Rightarrow> unit api"

text \<open>\<open>pytz.UTC.localize(t).isoformat()\<close> of a date-time without microseconds.\<close>

definition isoformat_utc :: "datetime \<Rightarrow> string" where
  "isoformat_utc t =
     strftime_date t @ ''T'' @ strftime_time t @ '':'' @ zpad 2 (second t) @ ''+00:00''"

definition is_email :: "string \<Rightarrow> bool" where
  "is_email s \<longleftrightarrow> CHR ''@'' \<in> set s \<and> CHR ''.'' \<in> set s"

text \<open>The loop over the participants: the pair of \<open>attendees\<close> and
  \<open>non_email_participants\<close>.\<close>

fun split_participants :: "string list \<Rightarrow> string list \<Rightarrow> string list \<Rightarrow> string list \<times> string list" where
  "split_participants [] attendees non_email = (attendees, non_email)"
| "split_participants (participant # ps) attendees non_email =
     (if participant \<noteq> [] then
        (let participant_str = py_strip participant
         in if is_email participant_str
            then split_participants ps (attendees @ [participant_str]) non_email
            else split_participants ps attendees (non_email @ [participant_str]))
      else split_participants ps attendees non_email)"

definition id_text :: "string option \<Rightarrow> string" where
  "id_text i = (case i of None \<Rightarrow> ''None'' | Some x \<Rightarrow> x)"

definition convert_to_google_event :: "env \<Rightarrow> meeting \<Rightarrow> exn + gbody" where
  "convert_to_google_event e meeting =
     (case strptime (m_date meeting @ '' '' @ m_time meeting) fmt_Ymd_HM of
        None \<Rightarrow> Inl ValueError
      | Some start_datetime \<Rightarrow>
          (case plus_timedelta start_datetime 0 60 of
             None \<Rightarrow> Inl OverflowError
           | Some end_datetime \<Rightarrow>
               (let (attendees, non_email_participants) =
                      split_participants (m_participants meeting) [] [];
                    description = m_description meeting;
                    participants_text =
                      [CHR 0x0A, CHR 0x0A] @ ''Participants: '' @ py_join '', '' non_email_participants;
                    description =
                      (if non_email_participants \<noteq> [] then
                         (if description \<noteq> [] then description @ participants_text
                          else py_strip participants_text)
                       else description)
                in Inr \<lparr>b_summary = m_title meeting,
                        b_description = description,
                        b_start_dateTime = isoformat_utc start_datetime,
                        b_start_timeZone = ''UTC'',
                        b_end_dateTime = isoformat_utc end_datetime,
                        b_end_timeZone = ''UTC'',
                        b_reminders_useDefault = False,
                        b_reminders_overrides =
                          [(''email'', default_reminder_minutes e),
                           (''popup'', default_reminder_minutes e)],
                        b_local_id = m_id meeting,
                        b_created_by = ''calendar_mcp_agent'',
                        b_attendees = (if attendees \<noteq> [] then Some attendees else None),
                        b_conference_requestId =
                          (if add_conference_link e
                           then Some (''meet-'' @ id_text (m_id meeting)) else None)\<rparr>)))"

text \<open>
  \<open>datetime.fromisoformat\<close>, on the grammar
  \<open>YYYY-MM-DD*HH[:MM[:SS[.fff[fff]]]][+HH:MM[:SS[.ffffff]]]\<close> of Python 3.7 to 3.10, \<open>*\<close>
  being any one character; \<open>None\<close> is its \<open>ValueError\<close>. Only the wall clock fields are
  kept: the offset is checked and dropped, since the adapter reads the result through
  \<open>strftime\<close> only.
\<close>

definition all_digits :: "string \<Rightarrow> bool" where
  "all_digits s \<longleftrightarrow> list_all is_digit s"

text \<open>\<open>HH[:MM[:SS[.fff[fff]]]]\<close>: hour, minute, second, microsecond.\<close>

definition parse_hh_mm_ss_ff :: "string \<Rightarrow> (nat \<times> nat \<times> nat \<times> nat) option" where
  "parse_hh_mm_ss_ff s =
     (let two = (\<lambda>x. length x = 2 \<and> all_digits x);
          frac = (\<lambda>x. if x = [] then Some 0
                      else if hd x = CHR ''.'' \<and> all_digits (tl x) \<and> length (tl x) = 3
                      then Some (py_int (tl x) * 1000)
                      else if hd x = CHR ''.'' \<and> all_digits (tl x) \<and> length (tl x) = 6
                      then Some (py_int (tl x))
                      else None)
      in if \<not> two (take 2 s) then None
         else if drop 2 s = [] then Some (py_int (take 2 s), 0, 0, 0)
         else if s ! 2 \<noteq> CHR '':'' \<or> \<not> two (take 2 (drop 3 s)) then None
         else if drop 5 s = [] then Some (py_int (take 2 s), py_int (take 2 (drop 3 s)), 0, 0)
         else if s ! 5 \<noteq> CHR '':'' \<or> \<not> two (take 2 (drop 6 s)) then None
         else (case frac (drop 8 s) of
                 None \<Rightarrow> None
               | Some us \<Rightarrow>
                   Some (py_int (take 2 s), py_int (take 2 (drop 3 s)),
                         py_int (take 2 (drop 6 s)), us)))"

definition fromisoformat :: "string \<Rightarrow> datetime option" where
  "fromisoformat s =
     (let d = take 10 s; t = drop 11 s;
          tz_pos = (case find (\<lambda>c. c = CHR ''-'') t of
                      Some _ \<Rightarrow> Some (length (takeWhile (\<lambda>c. c \<noteq> CHR ''-'') t))
                    | None \<Rightarrow>
                        (case find (\<lambda>c. c = CHR ''+'') t of
                           Some _ \<Rightarrow> Some (length (takeWhile (\<lambda>c. c \<noteq> CHR ''+'') t))
                         | None \<Rightarrow> None));
          timestr = (case tz_pos of None \<Rightarrow> t | Some p \<Rightarrow> take p t);
          tz_ok = (case tz_pos of
                     None \<Rightarrow> True
                   | Some p \<Rightarrow>
                       (let z = drop (p + 1) t
                        in length z \<in> {5, 8, 15} \<and>
                           (case parse_hh_mm_ss_ff z of
                              None \<Rightarrow> False
                            | Some (zh, zm, zs, zu) \<Rightarrow> zh * 60 + zm < 1440 \<and> zs < 60)))
      in if length s < 10 \<or> length d \<noteq> 10
            \<or> \<not> all_digits (take 4 d) \<or> d ! 4 \<noteq> CHR ''-''
            \<or> \<not> all_digits (take 2 (drop 5 d)) \<or> d ! 7 \<noteq> CHR ''-''
            \<or> \<not> all_digits (drop 8 d)
         then None
         else (let y = py_int (take 4 d); mo = py_int (take 2 (drop 5 d)); dd = py_int (drop 8 d)
               in if \<not> valid_date y mo dd then None
                  else if length s = 10 then Some (mk_datetime y mo dd 0 0)
                  else (case parse_hh_mm_ss_ff timestr of
                          None \<Rightarrow> None
                        | Some (hh, mi, ss, us) \<Rightarrow>
                            if hh \<le> 23 \<and> mi \<le> 59 \<and> ss \<le> 59 \<and> tz_ok
                            then Some \<lparr>year = y, month = mo, day = dd, hour = hh, minute = mi,
                                       second = ss, microsecond = us\<rparr>
                            else None)))"

text \<open>\<open>s.replace("Z", "+00:00")\<close>.\<close>

definition replace_Z :: "string \<Rightarrow> string" where
  "replace_Z s = concat (map (\<lambda>c. if c = CHR ''Z'' then ''+00:00'' else [c]) s)"

text \<open>\<open>attendee.get("displayName") or attendee.get("email", "").split("@")[0]\<close>.\<close>

definition attendee_name :: "attendee \<Rightarrow> string" where
  "attendee_name a =
     (case a_displayName a of
        Some n \<Rightarrow> if n \<noteq> [] then n else hd (py_split CHR ''@'' (case a_email a of Some x \<Rightarrow> x | None \<Rightarrow> []))
      | None \<Rightarrow> hd (py_split CHR ''@'' (case a_email a of Some x \<Rightarrow> x | None \<Rightarrow> [])))"

definition or_else :: "'a option \<Rightarrow> 'a \<Rightarrow> 'a" where
  "or_else x d = (case x of Some v \<Rightarrow> v | None \<Rightarrow> d)"

text \<open>\<open>a or b\<close> on optional strings: the first if it is a non-empty string.\<close>

definition py_or :: "string option \<Rightarrow> string option \<Rightarrow> string option" where
  "py_or a b = (case a of Some x \<Rightarrow> if x \<noteq> [] then a else b | None \<Rightarrow> b)"

definition convert_from_google_event :: "gevent \<Rightarrow> meeting option" where
  "convert_from_google_event event =
     (let start_datetime_str =
            (case g_start_dateTime event of
               Some x \<Rightarrow> x
             | None \<Rightarrow> or_else (g_start_date event) [])
      in if start_datetime_str = [] then None
         else (case (if CHR ''T'' \<in> set start_datetime_str
                     then fromisoformat (replace_Z start_datetime_str)
                     else strptime start_datetime_str fmt_Ymd_dash) of
                 None \<Rightarrow> None
               | Some start_dt \<Rightarrow>
                   Some \<lparr>m_id = py_or (g_local_id event) (g_id event),
                         m_title = or_else (g_summary event) ''Untitled'',
                         m_date = strftime_date start_dt,
                         m_time = strftime_time start_dt,
                         m_participants = map attendee_name (g_attendees event),
                         m_description = or_else (g_description event) [],
                         m_created_at = None,
                         m_google_event_id = g_id event,
                         m_synced_to_google = False,
                         m_google_link = Some (or_else (g_htmlLink event) []),
                         m_meet_link =
                           (case g_hangoutLink event of
                              Some l \<Rightarrow> if l \<noteq> [] then Some l else None
                            | None \<Rightarrow> None)\<rparr>))"

text \<open>The adapter's operations. \<open>HttpError\<close> is caught and becomes the soft result; any
  other exception leaves the operation (\<open>Inl\<close>).\<close>

definition create_event :: "env \<Rightarrow> meeting \<Rightarrow> exn + string option" where
  "create_event e meeting =
     (if \<not> is_enabled e then Inr None
      else (case convert_to_google_event e meeting of
              Inl x \<Rightarrow> Inl x
            | Inr event \<Rightarrow>
                (case events_insert e event of
                   Returns result \<Rightarrow> Inr (g_id result)
                 | HttpError _ \<Rightarrow> Inr None
                 | Raises x \<Rightarrow> Inl x)))"

definition update_event :: "env \<Rightarrow> meeting \<Rightarrow> string \<Rightarrow> exn + bool" where
  "update_event e meeting google_event_id =
     (if \<not> is_enabled e then Inr False
      else (case convert_to_google_event e meeting of
              Inl x \<Rightarrow> Inl x
            | Inr event \<Rightarrow>
                (case events_update e google_event_id event of
                   Returns _ \<Rightarrow> Inr True
                 | HttpError _ \<Rightarrow> Inr False
                 | Raises x \<Rightarrow> Inl x)))"

definition delete_event :: "env \<Rightarrow> string \<Rightarrow> exn + bool" where
  "delete_event e google_event_id =
     (if \<not> is_enabled e then Inr False
      else (case events_delete e google_event_id of
              Returns _ \<Rightarrow> Inr True
            | HttpError _ \<Rightarrow> Inr False
            | Raises x \<Rightarrow> Inl x))"

definition get_events :: "env \<Rightarrow> datetime \<Rightarrow> datetime \<Rightarrow> exn + meeting list" where
  "get_events e time_min time_max =
     (if \<not> is_enabled e then Inr []
      else (case events_list e time_min time_max of
              Returns events \<Rightarrow> Inr (List.map_filter convert_from_google_event events)
            | HttpError _ \<Rightarrow> Inr []
            | Raises x \<Rightarrow> Inl x))"

section \<open>\<open>mcp_server/handlers.py\<close>\<close>

text \<open>The result dictionary of a tool: a key that is not set is \<open>None\<close>.\<close>

record result =
  success :: bool
  error :: "string option"
  message :: "string option"
  r_meeting :: "meeting option"
  r_meetings :: "meeting list option"
  r_count :: "nat option"
  r_deleted_meeting :: "meeting option"

definition failure :: "string \<Rightarrow> result" where
  "failure msg =
     \<lparr>success = False, error = Some msg, message = None, r_meeting = None,
      r_meetings = None, r_count = None, r_deleted_meeting = None\<rparr>"

text \<open>The calls a handler makes on the adapter, in order.\<close>

datatype call =
    Get_events datetime datetime
  | Create_event meeting
  | Update_event meeting string
  | Delete_event string

text \<open>U+2713, the check mark of the messages, as its UTF-8 bytes.\<close>

definition check_mark :: string where
  "check_mark = [CHR 0xE2, CHR 0x9C, CHR 0x93]"

text \<open>Truthiness of an optional string argument: given and not empty.\<close>

definition truthy :: "string option \<Rightarrow> bool" where
  "truthy x \<longleftrightarrow> (case x of Some v \<Rightarrow> v \<noteq> [] | None \<Rightarrow> False)"

text \<open>The loop of \<open>_check_time_conflict\<close> over the fetched events; \<open>Inl\<close> is an exception
  raised inside it.\<close>

fun conflict_loop :: "datetime \<Rightarrow> datetime \<Rightarrow> string option \<Rightarrow> meeting list \<Rightarrow> exn + meeting option" where
  "conflict_loop meeting_datetime meeting_end exclude_event_id [] = Inr None"
| "conflict_loop meeting_datetime meeting_end exclude_event_id (event # events) =
     (if truthy exclude_event_id \<and> m_google_event_id event = exclude_event_id
      then conflict_loop meeting_datetime meeting_end exclude_event_id events
      else (case strptime (m_date event @ '' '' @ m_time event) fmt_Ymd_HM of
              None \<Rightarrow> Inl ValueError
            | Some event_datetime \<Rightarrow>
                (case plus_timedelta event_datetime 0 60 of
                   None \<Rightarrow> Inl OverflowError
                 | Some event_end \<Rightarrow>
                     if dt_less meeting_datetime event_end \<and> dt_less event_datetime meeting_end
                     then Inr (Some event)
                     else conflict_loop meeting_datetime meeting_end exclude_event_id events)))"

definition check_time_conflict ::
  "env \<Rightarrow> string \<Rightarrow> string \<Rightarrow> string option \<Rightarrow> meeting option \<times> call list" where
  "check_time_conflict e date_str time_str exclude_event_id =
     (case strptime (date_str @ '' '' @ time_str) fmt_Ymd_HM of
        None \<Rightarrow> (None, [])
      | Some meeting_datetime \<Rightarrow>
          (case plus_timedelta meeting_datetime 0 60 of
             None \<Rightarrow> (None, [])
           | Some meeting_end \<Rightarrow>
               (let day_start = meeting_datetime\<lparr>hour := 0, minute := 0, second := 0, microsecond := 0\<rparr>
                in case plus_timedelta day_start 1 0 of
                     None \<Rightarrow> (None, [])
                   | Some day_end \<Rightarrow>
                       (case get_events e day_start day_end of
                          Inl _ \<Rightarrow> (None, [Get_events day_start day_end])
                        | Inr events \<Rightarrow>
                            (case conflict_loop meeting_datetime meeting_end exclude_event_id events of
                               Inl _ \<Rightarrow> (None, [Get_events day_start day_end])
                             | Inr r \<Rightarrow> (r, [Get_events day_start day_end]))))))"

definition conflict_error :: "meeting \<Rightarrow> string" where
  "conflict_error conflict =
     ''Time conflict with '' @ [CHR 0x27] @ m_title conflict @ [CHR 0x27] @ '' at ''
       @ m_date conflict @ '' '' @ m_time conflict"

definition schedule_meeting ::
  "env \<Rightarrow> string \<Rightarrow> string \<Rightarrow> string \<Rightarrow> string list option \<Rightarrow> string \<Rightarrow> result \<times> call list" where
  "schedule_meeting e title date time participants0 description =
     (let participants = (case participants0 of None \<Rightarrow> [] | Some ps \<Rightarrow> ps);
          participants = filter (\<lambda>p. p \<noteq> [] \<and> py_strip p \<noteq> []) participants
      in if \<not> (title \<noteq> [] \<and> date \<noteq> [] \<and> time \<noteq> [])
         then (failure ''Missing required fields (title, date, time)'', [])
         else (case parse_date date of
            None \<Rightarrow>
              (failure (''Invalid date format '' @ [CHR 0x27] @ date @ [CHR 0x27] @ ''. Use YYYY-MM-DD''), [])
          | Some parsed_date \<Rightarrow>
         (let date_formatted = strftime_date parsed_date
          in case parse_time time of
            None \<Rightarrow>
              (failure (''Invalid time format '' @ [CHR 0x27] @ time @ [CHR 0x27]
                         @ ''. Use HH:MM or 12-hour format''), [])
          | Some parsed_time \<Rightarrow>
         if \<not> is_future_datetime (now e) date_formatted parsed_time
         then (failure ''Cannot schedule meetings in the past'', [])
         else
         (let (conflict, calls) =
                (if enable_conflict_detection e
                 then check_time_conflict e date_formatted parsed_time None
                 else (None, []))
          in case conflict of
            Some c \<Rightarrow> (failure (conflict_error c), calls)
          | None \<Rightarrow>
         (let meeting =
                \<lparr>m_id = Some (generate_meeting_id e), m_title = title, m_date = date_formatted,
                 m_time = parsed_time, m_participants = participants,
                 m_description = description, m_created_at = Some (now e),
                 m_google_event_id = None, m_synced_to_google = False,
                 m_google_link = None, m_meet_link = None\<rparr>
          in case create_event e meeting of
            Inl x \<Rightarrow>
              (failure (''Error scheduling meeting: '' @ exn_str e x), calls @ [Create_event meeting])
          | Inr google_event_id \<Rightarrow>
              if truthy google_event_id
              then (\<lparr>success = True, error = None,
                     message = Some (''Successfully scheduled '' @ [CHR 0x27] @ title @ [CHR 0x27]
                        @ '' on '' @ date_formatted @ '' at '' @ parsed_time
                        @ '' (Synced to Google Calendar '' @ check_mark @ '')''),
                     r_meeting = Some (meeting\<lparr>m_google_event_id := google_event_id,
                                               m_synced_to_google := True\<rparr>),
                     r_meetings = None, r_count = None, r_deleted_meeting = None\<rparr>,
                    calls @ [Create_event meeting])
              else (failure ''Failed to create event in Google Calendar'',
                    calls @ [Create_event meeting]))))))"

text \<open>\<open>a in b\<close> on strings.\<close>

fun py_in :: "string \<Rightarrow> string \<Rightarrow> bool" where
  "py_in a [] \<longleftrightarrow> a = []"
| "py_in a (c # b) \<longleftrightarrow> take (length a) (c # b) = a \<or> py_in a b"

definition get_meeting_details ::
  "env \<Rightarrow> string option \<Rightarrow> string option \<Rightarrow> string option \<Rightarrow> string option \<Rightarrow> result \<times> call list" where
  "get_meeting_details e date participant title meeting_id =
     (let window =
            (if truthy date then
               (case parse_date (the date) of
                  None \<Rightarrow>
                    Inl (failure (''Invalid date format '' @ [CHR 0x27] @ the date @ [CHR 0x27]
                                   @ ''. Use YYYY-MM-DD''))
                | Some parsed_date \<Rightarrow>
                    (let time_min = parsed_date\<lparr>hour := 0, minute := 0, second := 0\<rparr>
                     in case plus_timedelta time_min 1 0 of
                          None \<Rightarrow> Inl (failure (''Error retrieving meetings: '' @ exn_str e OverflowError))
                        | Some time_max \<Rightarrow> Inr (time_min, time_max)))
             else
               (case plus_timedelta (now e) 30 0 of
                  None \<Rightarrow> Inl (failure (''Error retrieving meetings: '' @ exn_str e OverflowError))
                | Some time_max \<Rightarrow> Inr (now e, time_max)))
      in case window of
           Inl r \<Rightarrow> (r, [])
         | Inr (time_min, time_max) \<Rightarrow>
             (case get_events e time_min time_max of
                Inl x \<Rightarrow>
                  (failure (''Error retrieving meetings: '' @ exn_str e x), [Get_events time_min time_max])
              | Inr meetings \<Rightarrow>
                  if meetings = []
                  then (\<lparr>success = True, error = None, message = Some ''No meetings found'',
                         r_meeting = None, r_meetings = Some [], r_count = None,
                         r_deleted_meeting = None\<rparr>,
                        [Get_events time_min time_max])
                  else
                    (let filtered = meetings;
                         filtered =
                           (if truthy participant
                            then filter (\<lambda>m. list_ex (\<lambda>p. py_in (py_lower (the participant)) (py_lower p))
                                                   (m_participants m)) filtered
                            else filtered);
                         filtered =
                           (if truthy title
                            then filter (\<lambda>m. py_in (py_lower (the title)) (py_lower (m_title m))) filtered
                            else filtered);
                         filtered =
                           (if truthy meeting_id
                            then filter (\<lambda>m. m_google_event_id m = meeting_id \<or> m_id m = meeting_id) filtered
                            else filtered)
                     in (\<lparr>success = True, error = None,
                          message = Some (''Found '' @ py_dec (length filtered)
                                          @ '' meeting(s) in Google Calendar''),
                          r_meeting = None, r_meetings = Some filtered,
                          r_count = Some (length filtered), r_deleted_meeting = None\<rparr>,
                         [Get_events time_min time_max]))))"

definition list_all_meetings :: "env \<Rightarrow> result \<times> call list" where
  "list_all_meetings e =
     (case plus_timedelta (now e) 30 0 of
        None \<Rightarrow> (failure (''Error listing meetings: '' @ exn_str e OverflowError), [])
      | Some time_max \<Rightarrow>
          (case get_events e (now e) time_max of
             Inl x \<Rightarrow> (failure (''Error listing meetings: '' @ exn_str e x), [Get_events (now e) time_max])
           | Inr meetings \<Rightarrow>
               if meetings = []
               then (\<lparr>success = True, error = None,
                      message = Some ''No upcoming meetings in Google Calendar'',
                      r_meeting = None, r_meetings = Some [], r_count = Some 0,
                      r_deleted_meeting = None\<rparr>,
                     [Get_events (now e) time_max])
               else
                 (let key = (\<lambda>m. strptime (m_date m @ '' '' @ m_time m) fmt_Ymd_HM);
                      sorted_meetings =
                        (if list_all (\<lambda>m. key m \<noteq> None) meetings
                         then sort_key (\<lambda>m. dt_key (the (key m))) meetings
                         else meetings)
                  in (\<lparr>success = True, error = None,
                       message = Some (''Found '' @ py_dec (length sorted_meetings)
                                       @ '' upcoming meeting(s) in Google Calendar''),
                       r_meeting = None, r_meetings = Some sorted_meetings,
                       r_count = Some (length sorted_meetings), r_deleted_meeting = None\<rparr>,
                      [Get_events (now e) time_max]))))"

text \<open>
  \<open>update_meeting\<close>. The fetched meeting is changed field by field: \<open>title\<close>, \<open>date\<close>,
  \<open>time\<close> and \<open>participants\<close> under \<open>if x:\<close>, \<open>description\<close> under
  \<open>if description is not None:\<close>. \<open>merge_fields\<close> is that part of the body; \<open>Inl\<close> is
  its early return.
\<close>

definition merge_fields ::
  "meeting \<Rightarrow> string option \<Rightarrow> string option \<Rightarrow> string option \<Rightarrow> string list option
     \<Rightarrow> string option \<Rightarrow> result + meeting" where
  "merge_fields meeting title date time participants description =
     (let meeting = (if truthy title then meeting\<lparr>m_title := the title\<rparr> else meeting);
          dated =
            (if truthy date then
               (case parse_date (the date) of
                  None \<Rightarrow> Inl (failure (''Invalid date format '' @ [CHR 0x27] @ the date @ [CHR 0x27]))
                | Some parsed_date \<Rightarrow> Inr (meeting\<lparr>m_date := strftime_date parsed_date\<rparr>))
             else Inr meeting)
      in case dated of
           Inl r \<Rightarrow> Inl r
         | Inr meeting \<Rightarrow>
             (let timed =
                    (if truthy time then
                       (case parse_time (the time) of
                          None \<Rightarrow>
                            Inl (failure (''Invalid time format '' @ [CHR 0x27] @ the time @ [CHR 0x27]))
                        | Some parsed_time \<Rightarrow> Inr (meeting\<lparr>m_time := parsed_time\<rparr>))
                     else Inr meeting)
              in case timed of
                   Inl r \<Rightarrow> Inl r
                 | Inr meeting \<Rightarrow>
                     (let meeting =
                            (case participants of
                               Some ps \<Rightarrow> if ps \<noteq> [] then meeting\<lparr>m_participants := ps\<rparr> else meeting
                             | None \<Rightarrow> meeting);
                          meeting =
                            (case description of
                               Some d \<Rightarrow> meeting\<lparr>m_description := d\<rparr>
                             | None \<Rightarrow> meeting)
                      in Inr meeting)))"

definition not_found :: "string \<Rightarrow> result" where
  "not_found meeting_id =
     failure (''Meeting with ID '' @ [CHR 0x27] @ meeting_id @ [CHR 0x27]
              @ '' not found in Google Calendar'')"

definition update_meeting ::
  "env \<Rightarrow> string \<Rightarrow> string option \<Rightarrow> string option \<Rightarrow> string option \<Rightarrow> string list option
     \<Rightarrow> string option \<Rightarrow> result \<times> call list" where
  "update_meeting e meeting_id title date time participants description =
     (let (res, calls) = get_meeting_details e None None None (Some meeting_id)
      in if \<not> success res \<or> or_else (r_meetings res) [] = []
         then (not_found meeting_id, calls)
         else
         (let meeting = hd (the (r_meetings res));
              google_event_id = m_google_event_id meeting
          in if \<not> truthy google_event_id
             then (failure ''Cannot update meeting: Google event ID not found'', calls)
             else
             (case merge_fields meeting title date time participants description of
                Inl r \<Rightarrow> (r, calls)
              | Inr meeting \<Rightarrow>
                  (let (conflict, calls2) =
                         (if truthy date \<or> truthy time
                          then check_time_conflict e (m_date meeting) (m_time meeting) google_event_id
                          else (None, []))
                   in case conflict of
                        Some c \<Rightarrow> (failure (conflict_error c), calls @ calls2)
                      | None \<Rightarrow>
                          (case update_event e meeting (the google_event_id) of
                             Inl x \<Rightarrow>
                               (failure (''Error updating meeting: '' @ exn_str e x),
                                calls @ calls2 @ [Update_event meeting (the google_event_id)])
                           | Inr ok \<Rightarrow>
                               if ok
                               then (\<lparr>success = True, error = None,
                                      message = Some (''Successfully updated meeting '' @ [CHR 0x27]
                                         @ m_title meeting @ [CHR 0x27] @ '' in Google Calendar ''
                                         @ check_mark),
                                      r_meeting = Some meeting, r_meetings = None, r_count = None,
                                      r_deleted_meeting = None\<rparr>,
                                     calls @ calls2 @ [Update_event meeting (the google_event_id)])
                               else (failure ''Failed to update event in Google Calendar'',
                                     calls @ calls2 @ [Update_event meeting (the google_event_id)]))))))"

definition delete_meeting :: "env \<Rightarrow> string \<Rightarrow> result \<times> call list" where
  "delete_meeting e meeting_id =
     (let (res, calls) = get_meeting_details e None None None (Some meeting_id)
      in if \<not> success res \<or> or_else (r_meetings res) [] = []
         then (not_found meeting_id, calls)
         else
         (let meeting = hd (the (r_meetings res));
              google_event_id = m_google_event_id meeting
          in if \<not> truthy google_event_id
             then (failure ''Cannot delete meeting: Google event ID not found'', calls)
             else
             (case delete_event e (the google_event_id) of
                Inl x \<Rightarrow>
                  (failure (''Error deleting meeting: '' @ exn_str e x),
                   calls @ [Delete_event (the google_event_id)])
              | Inr ok \<Rightarrow>
                  if ok
                  then (\<lparr>success = True, error = None,
                         message = Some (''Successfully deleted meeting '' @ [CHR 0x27]
                            @ m_title meeting @ [CHR 0x27] @ '' from Google Calendar '' @ check_mark),
                         r_meeting = None, r_meetings = None, r_count = None,
                         r_deleted_meeting = Some meeting\<rparr>,
                        calls @ [Delete_event (the google_event_id)])
                  else (failure ''Failed to delete event from Google Calendar'',
                        calls @ [Delete_event (the google_event_id)]))))"

section \<open>\<open>agent/calendar_agent.py\<close>: the tool dispatcher\<close>

text \<open>
  The arguments of a tool call, a dictionary from parameter names to values of the types
  the tool declarations give them: a key that is absent is \<open>None\<close>, and \<open>ti_other_keys\<close>
  says that there is a key which is no parameter of any handler.
\<close>

record tool_input =
  ti_title :: "string option"
  ti_date :: "string option"
  ti_time :: "string option"
  ti_participants :: "string list option"
  ti_description :: "string option"
  ti_participant :: "string option"
  ti_meeting_id :: "string option"
  ti_other_keys :: bool

text \<open>
  \<open>_execute_tool\<close>. \<open>CalendarHandlers()\<close> is built before the \<open>try\<close>, and raises
  \<open>RuntimeError\<close> when the service is not enabled (\<open>Inl\<close>). \<open>handler(**tool_input)\<close>
  raises \<open>TypeError\<close> on a key that is not a parameter and on a missing required one; the
  \<open>except\<close> turns it into a result.
\<close>

definition tool_error :: "env \<Rightarrow> exn \<Rightarrow> result \<times> call list" where
  "tool_error e x = (failure (''Tool execution error: '' @ exn_str e x), [])"

definition execute_tool :: "env \<Rightarrow> string \<Rightarrow> tool_input \<Rightarrow> exn + result \<times> call list" where
  "execute_tool e tool_name ti =
     (if \<not> is_enabled e then Inl RuntimeError
      else if tool_name = ''schedule_meeting'' then
        (if ti_other_keys ti \<or> ti_participant ti \<noteq> None \<or> ti_meeting_id ti \<noteq> None
            \<or> ti_title ti = None \<or> ti_date ti = None \<or> ti_time ti = None
         then Inr (tool_error e TypeError)
         else Inr (schedule_meeting e (the (ti_title ti)) (the (ti_date ti)) (the (ti_time ti))
                     (ti_participants ti) (or_else (ti_description ti) [])))
      else if tool_name = ''get_meeting_details'' then
        (if ti_other_keys ti \<or> ti_time ti \<noteq> None \<or> ti_participants ti \<noteq> None
            \<or> ti_description ti \<noteq> None
         then Inr (tool_error e TypeError)
         else Inr (get_meeting_details e (ti_date ti) (ti_participant ti) (ti_title ti)
                     (ti_meeting_id ti)))
      else if tool_name = ''list_all_meetings'' then Inr (list_all_meetings e)
      else if tool_name = ''update_meeting'' then
        (if ti_other_keys ti \<or> ti_participant ti \<noteq> None \<or> ti_meeting_id ti = None
         then Inr (tool_error e TypeError)
         else Inr (update_meeting e (the (ti_meeting_id ti)) (ti_title ti) (ti_date ti) (ti_time ti)
                     (ti_participants ti) (ti_description ti)))
      else if tool_name = ''delete_meeting'' then
        (if ti_other_keys ti \<or> ti_title ti \<noteq> None \<or> ti_date ti \<noteq> None \<or> ti_time ti \<noteq> None
            \<or> ti_participants ti \<noteq> None \<or> ti_description ti \<noteq> None \<or> ti_participant ti \<noteq> None
            \<or> ti_meeting_id ti = None
         then Inr (tool_error e TypeError)
         else Inr (delete_meeting e (the (ti_meeting_id ti))))
      else Inr (failure (''Unknown tool: '' @ tool_name), []))"

section \<open>Predicates of the specification and sample data\<close>

text \<open>The invariant of the result envelope: a failure carries a non-empty \<open>error\<close>, a
  success carries none.\<close>

definition envelope_ok :: "result \<Rightarrow> bool" where
  "envelope_ok r \<longleftrightarrow>
     (\<not> success r \<longrightarrow> (\<exists>msg. error r = Some msg \<and> msg \<noteq> [])) \<and> (success r \<longrightarrow> error r = None)"

definition demo_now :: datetime where
  "demo_now = mk_datetime 2025 6 1 9 0"

definition quiet_env :: env where
  "quiet_env =
     \<lparr>now = demo_now, is_enabled = True, enable_conflict_detection = True,
      add_conference_link = True, default_reminder_minutes = 15,
      generate_meeting_id = ''abc12345'', exn_str = (\<lambda>x. ''error''),
      events_list = (\<lambda>a b. Returns []),
      events_insert = (\<lambda>b. HttpError 500),
      events_update = (\<lambda>i b. HttpError 500),
      events_delete = (\<lambda>i. HttpError 500)\<rparr>"

definition no_input :: tool_input where
  "no_input =
     \<lparr>ti_title = None, ti_date = None, ti_time = None, ti_participants = None,
      ti_description = None, ti_participant = None, ti_meeting_id = None, ti_other_keys = False\<rparr>"

text \<open>The instant that a parsed date and a normalised time \<open>HH:MM\<close> denote together.\<close>

definition combined_instant :: "datetime \<Rightarrow> string \<Rightarrow> datetime" where
  "combined_instant parsed_date parsed_time =
     mk_datetime (year parsed_date) (month parsed_date) (day parsed_date)
       (py_int (take 2 parsed_time)) (py_int (drop 3 parsed_time))"

text \<open>A normalised time \<open>HH:MM\<close>.\<close>

definition is_clock :: "string \<Rightarrow> bool" where
  "is_clock s \<longleftrightarrow> (\<exists>h m. h \<le> 23 \<and> m \<le> 59 \<and> s = hh_mm h m)"

text \<open>The start of a fetched meeting, as the conflict check reads it.\<close>

definition event_start :: "meeting \<Rightarrow> datetime option" where
  "event_start ev = strptime (m_date ev @ '' '' @ m_time ev) fmt_Ymd_HM"

text \<open>
  The overlap test in the words of the specification: both meetings are 60 minutes wide,
  and \<open>[a, a + 60min)\<close> and \<open>[b, b + 60min)\<close> overlap iff \<open>a < b + 60min\<close> and
  \<open>b < a + 60min\<close>.
\<close>

definition spec_overlap :: "datetime \<Rightarrow> datetime \<Rightarrow> bool" where
  "spec_overlap a b \<longleftrightarrow>
     (case (plus_timedelta a 0 60, plus_timedelta b 0 60) of
        (Some a_end, Some b_end) \<Rightarrow> dt_less a b_end \<and> dt_less b a_end
      | _ \<Rightarrow> False)"

text \<open>The conflict in the words of the specification: the first event, in the order
  fetched, that is not the excluded one and overlaps the proposed start.\<close>

definition spec_conflict :: "datetime \<Rightarrow> string option \<Rightarrow> meeting list \<Rightarrow> meeting option" where
  "spec_conflict proposed exclude_event_id events =
     List.find
       (\<lambda>ev. \<not> (truthy exclude_event_id \<and> m_google_event_id ev = exclude_event_id)
             \<and> (case event_start ev of Some s \<Rightarrow> spec_overlap proposed s | None \<Rightarrow> False))
       events"

text \<open>The midnight that starts the day of a date-time.\<close>

definition day_start :: "datetime \<Rightarrow> datetime" where
  "day_start t = t\<lparr>hour := 0, minute := 0, second := 0, microsecond := 0\<rparr>"

text \<open>Sample data: a provider that holds one event, and one whose list request fails.\<close>

definition demo_event :: gevent where
  "demo_event =
     \<lparr>g_id = Some ''g1'', g_summary = Some ''Standup'', g_description = Some ''daily'',
      g_start_dateTime = Some ''2025-06-10T14:00:00Z'', g_start_date = None,
      g_attendees = [\<lparr>a_displayName = None, a_email = Some ''alice@example.com''\<rparr>],
      g_local_id = Some ''abc12345'', g_htmlLink = Some ''https://calendar.example/g1'',
      g_hangoutLink = None\<rparr>"

definition demo_meeting :: meeting where
  "demo_meeting =
     \<lparr>m_id = Some ''abc12345'', m_title = ''Standup'', m_date = ''2025-06-10'', m_time = ''14:00'',
      m_participants = [''alice''], m_description = ''daily'', m_created_at = None,
      m_google_event_id = Some ''g1'', m_synced_to_google = False,
      m_google_link = Some ''https://calendar.example/g1'', m_meet_link = None\<rparr>"

definition busy_env :: env where
  "busy_env =
     quiet_env\<lparr>events_list := (\<lambda>a b. Returns [demo_event]),
               events_insert := (\<lambda>b. Returns (demo_event\<lparr>g_id := Some ''g2''\<rparr>)),
               events_update := (\<lambda>i b. Returns ()),
               events_delete := (\<lambda>i. Returns ())\<rparr>"

definition raising_env :: env where
  "raising_env = busy_env\<lparr>events_list := (\<lambda>a b. Raises OtherException)\<rparr>"

text \<open>The meeting object that \<open>schedule_meeting\<close> builds and hands to \<open>create_event\<close>.\<close>

definition new_meeting ::
  "env \<Rightarrow> string \<Rightarrow> string \<Rightarrow> string \<Rightarrow> string list option \<Rightarrow> string \<Rightarrow> meeting" where
  "new_meeting e title date_formatted parsed_time participants0 description =
     \<lparr>m_id = Some (generate_meeting_id e), m_title = title, m_date = date_formatted,
      m_time = parsed_time,
      m_participants =
        filter (\<lambda>p. p \<noteq> [] \<and> py_strip p \<noteq> [])
          (case participants0 of None \<Rightarrow> [] | Some ps \<Rightarrow> ps),
      m_description = description, m_created_at = Some (now e),
      m_google_event_id = None, m_synced_to_google = False,
      m_google_link = None, m_meet_link = None\<rparr>"

text \<open>The meeting that \<open>update_meeting\<close> and \<open>delete_meeting\<close> resolve an id to: the first
  match of \<open>get_meeting_details(meeting_id=...)\<close>, if the lookup succeeds with a match.\<close>

definition fetched_meeting :: "env \<Rightarrow> string \<Rightarrow> meeting option" where
  "fetched_meeting e meeting_id =
     (let res = fst (get_meeting_details e None None None (Some meeting_id))
      in if success res \<and> or_else (r_meetings res) [] \<noteq> []
         then Some (hd (the (r_meetings res))) else None)"

text \<open>
  The merge in the words of the specification: a field that was supplied has the new
  value, every other field has the fetched one. Supplied means true in Python for
  \<open>title\<close>, \<open>date\<close>, \<open>time\<close> and \<open>participants\<close>, and not \<open>None\<close> for \<open>description\<close>.
\<close>

definition merged ::
  "meeting \<Rightarrow> string option \<Rightarrow> string option \<Rightarrow> string option \<Rightarrow> string list option
     \<Rightarrow> string option \<Rightarrow> meeting \<Rightarrow> bool" where
  "merged fetched title date time participants description m \<longleftrightarrow>
     m_title m = (if truthy title then the title else m_title fetched)
     \<and> (if truthy date then map_option strftime_date (parse_date (the date)) = Some (m_date m)
         else m_date m = m_date fetched)
     \<and> (if truthy time then parse_time (the time) = Some (m_time m)
         else m_time m = m_time fetched)
     \<and> m_participants m =
         (case participants of
            Some ps \<Rightarrow> if ps \<noteq> [] then ps else m_participants fetched
          | None \<Rightarrow> m_participants fetched)
     \<and> m_description m = (case description of Some d \<Rightarrow> d | None \<Rightarrow> m_description fetched)
     \<and> m_id m = m_id fetched
     \<and> m_google_event_id m = m_google_event_id fetched"

definition only_reads :: "call list \<Rightarrow> bool" where
  "only_reads calls \<longleftrightarrow> list_all (\<lambda>c. case c of Get_events a b \<Rightarrow> True | _ \<Rightarrow> False) calls"

text \<open>
  The partition of the participants as the claim words it: the non-empty strings with
  \<open>@\<close> and \<open>.\<close> are the attendees' emails, as they are.
\<close>

definition claimed_attendees :: "string list \<Rightarrow> string list option" where
  "claimed_attendees ps =
     (let a = filter (\<lambda>p. p \<noteq> [] \<and> is_email p) ps in if a = [] then None else Some a)"

text \<open>What the adapter does: the strings are stripped where they are classified.\<close>

definition email_participants :: "string list \<Rightarrow> string list" where
  "email_participants ps = map py_strip (filter (\<lambda>p. p \<noteq> [] \<and> is_email p) ps)"

definition other_participants :: "string list \<Rightarrow> string list" where
  "other_participants ps = map py_strip (filter (\<lambda>p. p \<noteq> [] \<and> \<not> is_email p) ps)"

definition participants_marker :: string where
  "participants_marker = ''Participants: ''"

definition padded_meeting :: meeting where
  "padded_meeting = demo_meeting\<lparr>m_participants := ['' a@b.c'']\<rparr>"

definition alice_bob_meeting :: meeting where
  "alice_bob_meeting = demo_meeting\<lparr>m_participants := [''alice@example.com'', ''Bob''], m_description := []\<rparr>"

text \<open>
  The provider of the round trip: it stores the body it is sent and, asked to list,
  returns it as it was sent, under the id it gave (with its own links).
\<close>

definition echo_event :: "gbody \<Rightarrow> string \<Rightarrow> string option \<Rightarrow> string option \<Rightarrow> gevent" where
  "echo_event body gid link hangout =
     \<lparr>g_id = Some gid, g_summary = Some (b_summary body),
      g_description = Some (b_description body),
      g_start_dateTime = Some (b_start_dateTime body), g_start_date = None,
      g_attendees = map (\<lambda>a. \<lparr>a_displayName = None, a_email = Some a\<rparr>) (or_else (b_attendees body) []),
      g_local_id = b_local_id body, g_htmlLink = link, g_hangoutLink = hangout\<rparr>"

text \<open>The part of an address before its first \<open>@\<close>.\<close>

definition local_part :: "string \<Rightarrow> string" where
  "local_part s = hd (py_split CHR ''@'' s)"

text \<open>
  Sample data of the round trip: a provider that gives the id \<open>g2\<close> to the body it is
  sent, the meeting that \<open>schedule_meeting\<close> builds for \<open>alice@example.com\<close>, the body sent
  for it, a provider that lists that body as an event, and the meeting fetched from it.
\<close>

definition create_env :: env where
  "create_env = quiet_env\<lparr>events_insert := (\<lambda>b. Returns (echo_event b ''g2'' None None))\<rparr>"

definition alice_meeting :: meeting where
  "alice_meeting =
     new_meeting create_env ''Standup'' ''2025-06-10'' ''14:00'' (Some [''alice@example.com'']) ''daily''"

definition alice_body :: gbody where
  "alice_body =
     \<lparr>b_summary = ''Standup'', b_description = ''daily'',
      b_start_dateTime = ''2025-06-10T14:00:00+00:00'', b_start_timeZone = ''UTC'',
      b_end_dateTime = ''2025-06-10T15:00:00+00:00'', b_end_timeZone = ''UTC'',
      b_reminders_useDefault = False, b_reminders_overrides = [(''email'', 15), (''popup'', 15)],
      b_local_id = Some ''abc12345'', b_created_by = ''calendar_mcp_agent'',
      b_attendees = Some [''alice@example.com''],
      b_conference_requestId = Some ''meet-abc12345''\<rparr>"

definition query_env :: env where
  "query_env = create_env\<lparr>events_list := (\<lambda>a b. Returns [echo_event alice_body ''g2'' None None])\<rparr>"

definition alice_fetched :: meeting where
  "alice_fetched =
     \<lparr>m_id = Some ''abc12345'', m_title = ''Standup'', m_date = ''2025-06-10'', m_time = ''14:00'',
      m_participants = [''alice''], m_description = ''daily'', m_created_at = None,
      m_google_event_id = Some ''g2'', m_synced_to_google = False,
      m_google_link = Some [], m_meet_link = None\<rparr>"

declare py_dec.simps [simp del]

section \<open>Evaluation and arithmetic of digits\<close>

lemma funpow_numeral_unfold: "(f ^^ numeral k) x = (f ^^ pred_numeral k) (f x)"
  by (simp add: numeral_eq_Suc funpow_swap1)

lemmas dt_eval = plus_timedelta_def mk_datetime_def next_day_def days_in_month_def is_leap_def
  funpow_numeral_unfold Let_def dt_less_def dt_key_def

lemmas str_eval = is_digit_def digit_val_def digit_char_def is_space_def py_int_def py_strip_def
  zpad_def in_range_def two_chars_def one_char_def rx_Y_def rx_m_def rx_d_def rx_H_def rx_M_def
  rx_spaces_plus_def no_fields_def strptime_def valid_date_def py_dec.simps
  fmt_Ymd_dash_def fmt_Ymd_slash_def fmt_dmY_dash_def fmt_dmY_slash_def fmt_Ymd_HM_def
  strftime_date_def strftime_time_def days_in_month_def is_leap_def mk_datetime_def

lemma digit_cases: "(k::nat) < 10 \<Longrightarrow> k \<in> {0, 1, 2, 3, 4, 5, 6, 7, 8, 9}"
  by auto

lemma of_char_digit_char: "k < 10 \<Longrightarrow> (of_char (digit_char k) :: nat) = 48 + k"
  by (drule digit_cases) (auto simp: digit_char_def)

lemma is_digit_digit_char [simp]: "is_digit (digit_char k)"
proof -
  have "k mod 10 < 10" by simp
  from digit_cases[OF this] show ?thesis
    by (auto simp: digit_char_def is_digit_def)
qed

lemma digit_char_mod: "digit_char (k mod 10) = digit_char k"
  by (simp add: digit_char_def)

lemma digit_val_digit_char: "k < 10 \<Longrightarrow> digit_val (digit_char k) = k"
  by (simp add: digit_val_def of_char_digit_char)

lemma digit_val_digit_char_mod [simp]: "digit_val (digit_char k) = k mod 10"
  using digit_val_digit_char[of "k mod 10"] by (simp add: digit_char_mod)

lemma in_range_digit_char:
  "k < 10 \<Longrightarrow> in_range lo hi (digit_char k) \<longleftrightarrow> (of_char lo :: nat) \<le> 48 + k \<and> 48 + k \<le> (of_char hi :: nat)"
  by (simp add: in_range_def of_char_digit_char)

lemma digit_char_eq: "k < 10 \<Longrightarrow> digit_char k = c \<longleftrightarrow> (of_char c :: nat) = 48 + k"
proof
  assume "k < 10" "digit_char k = c"
  then show "(of_char c :: nat) = 48 + k" using of_char_digit_char by blast
next
  assume k: "k < 10" and "(of_char c :: nat) = 48 + k"
  then have "(of_char c :: nat) = of_char (digit_char k)" by (simp add: of_char_digit_char)
  then show "digit_char k = c" by simp
qed

lemma digit_not_space [simp]: "\<not> is_space (digit_char k)"
proof -
  have "k mod 10 < 10" by simp
  from digit_cases[OF this] show ?thesis
    by (auto simp: digit_char_def is_space_def)
qed

lemma py_dec_small: "n < 10 \<Longrightarrow> py_dec n = [digit_char n]"
  by (simp add: py_dec.simps)

lemma py_dec_2: "10 \<le> n \<Longrightarrow> n < 100 \<Longrightarrow> py_dec n = [digit_char (n div 10), digit_char n]"
  by (subst py_dec.simps) (simp add: py_dec_small)

lemma py_dec_3: "100 \<le> n \<Longrightarrow> n < 1000 \<Longrightarrow> py_dec n = [digit_char (n div 100), digit_char (n div 10), digit_char n]"
  by (subst py_dec.simps) (simp add: py_dec_2 div_mult2_eq[symmetric])

lemma py_dec_4: "1000 \<le> n \<Longrightarrow> n < 10000 \<Longrightarrow>
  py_dec n = [digit_char (n div 1000), digit_char (n div 100), digit_char (n div 10), digit_char n]"
  by (subst py_dec.simps) (simp add: py_dec_3 div_mult2_eq[symmetric])

lemma digit_char_0: "n < 10 \<Longrightarrow> digit_char (n div 10) = CHR ''0''"
  by (simp add: digit_char_def)

lemma zpad2: "n < 100 \<Longrightarrow> zpad 2 n = [digit_char (n div 10), digit_char n]"
  by (cases "n < 10") (simp_all add: zpad_def py_dec_2 py_dec_small digit_char_def)

lemma zpad4: "n < 10000 \<Longrightarrow>
  zpad 4 n = [digit_char (n div 1000), digit_char (n div 100), digit_char (n div 10), digit_char n]"
proof -
  assume n: "n < 10000"
  consider "n < 10" | "10 \<le> n" "n < 100" | "100 \<le> n" "n < 1000" | "1000 \<le> n"
    by linarith
  then show ?thesis
  proof cases
    case 1 then show ?thesis
      by (simp add: zpad_def py_dec_small digit_char_def numeral_3_eq_3)
  next
    case 2 then show ?thesis
      by (simp add: zpad_def py_dec_2 digit_char_def numeral_2_eq_2)
  next
    case 3 then show ?thesis
      by (simp add: zpad_def py_dec_3 digit_char_def)
  next
    case 4 with n show ?thesis by (simp add: zpad_def py_dec_4)
  qed
qed

lemma py_int_2 [simp]: "py_int [a, b] = 10 * digit_val a + digit_val b"
  by (simp add: py_int_def)

lemma py_int_4 [simp]:
  "py_int [a, b, c, d] = 1000 * digit_val a + 100 * digit_val b + 10 * digit_val c + digit_val d"
  by (simp add: py_int_def)

lemma lin4: "(n::nat) = 10 * q1 + r0 \<Longrightarrow> q1 = 10 * q2 + r1 \<Longrightarrow> q2 = 10 * q3 + r2 \<Longrightarrow>
   1000 * q3 + 100 * r2 + 10 * r1 + r0 = n"
  by simp

lemma digits4: "1000 * (n div 1000) + 100 * (n div 100 mod 10) + 10 * (n div 10 mod 10) + n mod 10 = (n::nat)"
proof -
  have d: "n div 100 = n div 10 div 10" "n div 1000 = n div 10 div 10 div 10"
    by (simp_all add: div_mult2_eq[symmetric])
  show ?thesis unfolding d
    by (rule lin4) simp_all
qed

lemma rx_Y_zpad: "n < 10000 \<Longrightarrow> rx_Y (zpad 4 n @ r) = [(n, r)]"
  by (simp add: zpad4 rx_Y_def digits4)


lemma dc0 [simp]: "digit_char 0 = CHR ''0''" and dc1 [simp]: "digit_char 1 = CHR ''1''"
  and dc2 [simp]: "digit_char 2 = CHR ''2''" and dc3 [simp]: "digit_char 3 = CHR ''3''"
  by (simp_all add: digit_char_def)

lemma in_range_dc:
  "in_range lo hi (digit_char k) \<longleftrightarrow> (of_char lo :: nat) \<le> 48 + k mod 10 \<and> 48 + k mod 10 \<le> (of_char hi :: nat)"
  using in_range_digit_char[of "k mod 10" lo hi] by (simp add: digit_char_mod)

lemma two_digits: "a < 10 \<Longrightarrow> b < 10 \<Longrightarrow> zpad 2 (10 * a + b) = [digit_char a, digit_char b]"
  by (simp add: zpad2 digit_char_def)

lemma two_digits_inst:
  "b < 10 \<Longrightarrow> zpad 2 b = [CHR ''0'', digit_char b]"
  "b < 10 \<Longrightarrow> zpad 2 (10 + b) = [CHR ''1'', digit_char b]"
  "b < 10 \<Longrightarrow> zpad 2 (20 + b) = [CHR ''2'', digit_char b]"
  "b < 10 \<Longrightarrow> zpad 2 (30 + b) = [CHR ''3'', digit_char b]"
  using two_digits[of 0 b] two_digits[of 1 b] two_digits[of 2 b] two_digits[of 3 b]
  by (simp_all add: digit_char_def)

lemma split_digits:
  obtains a b :: nat where "n = 10 * a + b" "b < 10"
proof
  show "n = 10 * (n div 10) + n mod 10" by simp
  show "n mod 10 < 10" by simp
qed

lemmas rx_simps = two_chars_def one_char_def in_range_def of_char_digit_char digit_val_def

lemma rx_M_zpad: "n \<le> 59 \<Longrightarrow> \<exists>t. rx_M (zpad 2 n @ r) = (n, r) # t"
proof -
  assume n: "n \<le> 59"
  obtain a b where ab: "n = 10 * a + b" "b < 10" by (rule split_digits)
  with n have "a \<le> 5" by linarith
  with ab show ?thesis
    by (simp add: two_digits rx_M_def rx_simps)
qed

lemma rx_H_zpad: "n \<le> 23 \<Longrightarrow> \<exists>t. rx_H (zpad 2 n @ r) = (n, r) # t"
proof -
  assume n: "n \<le> 23"
  obtain a b where ab: "n = 10 * a + b" "b < 10" by (rule split_digits)
  with n consider "a = 0" | "a = 1" | "a = 2" "b \<le> 3" by linarith
  then show ?thesis
    by cases (use ab in \<open>simp_all add: two_digits_inst rx_H_def rx_simps\<close>)
qed

lemma rx_m_zpad: "1 \<le> n \<Longrightarrow> n \<le> 12 \<Longrightarrow> \<exists>t. rx_m (zpad 2 n @ r) = (n, r) # t"
proof -
  assume n: "1 \<le> n" "n \<le> 12"
  obtain a b where ab: "n = 10 * a + b" "b < 10" by (rule split_digits)
  with n consider "a = 0" "1 \<le> b" | "a = 1" "b \<le> 2" by linarith
  then show ?thesis
    by cases (use ab in \<open>simp_all add: two_digits_inst rx_m_def rx_simps\<close>)
qed

lemma rx_d_zpad: "1 \<le> n \<Longrightarrow> n \<le> 31 \<Longrightarrow> \<exists>t. rx_d (zpad 2 n @ r) = (n, r) # t"
proof -
  assume n: "1 \<le> n" "n \<le> 31"
  obtain a b where ab: "n = 10 * a + b" "b < 10" by (rule split_digits)
  with n consider "a = 0" "1 \<le> b" | "a = 1" | "a = 2" | "a = 3" "b \<le> 1" by linarith
  then show ?thesis
    by cases (use ab in \<open>simp_all add: two_digits_inst rx_d_def rx_simps\<close>)
qed

lemma rx_format_head:
  "\<exists>t. rx_directive d f s = (f', r) # t \<Longrightarrow> \<exists>t. rx_format ds f' r = x # t
   \<Longrightarrow> \<exists>t. rx_format (d # ds) f s = x # t"
  by auto

lemma is_space_blank [simp]: "is_space CHR '' ''"
  by (simp add: is_space_def)

lemma rx_spaces_digit: "n < 100 \<Longrightarrow> rx_spaces_plus (CHR '' '' # zpad 2 n @ r) = [zpad 2 n @ r]"
  by (simp add: rx_spaces_plus_def zpad2)

lemma dir_Y: "n < 10000 \<Longrightarrow> \<exists>t. rx_directive DirY f (zpad 4 n @ r) = (f\<lparr>f_year := n\<rparr>, r) # t"
  by (simp add: rx_Y_zpad)

lemma dir_m: "1 \<le> n \<Longrightarrow> n \<le> 12 \<Longrightarrow> \<exists>t. rx_directive Dirm f (zpad 2 n @ r) = (f\<lparr>f_month := n\<rparr>, r) # t"
  using rx_m_zpad[of n r] by auto

lemma dir_d: "1 \<le> n \<Longrightarrow> n \<le> 31 \<Longrightarrow> \<exists>t. rx_directive Dird f (zpad 2 n @ r) = (f\<lparr>f_day := n\<rparr>, r) # t"
  using rx_d_zpad[of n r] by auto

lemma dir_H: "n \<le> 23 \<Longrightarrow> \<exists>t. rx_directive DirH f (zpad 2 n @ r) = (f\<lparr>f_hour := n\<rparr>, r) # t"
  using rx_H_zpad[of n r] by auto

lemma dir_M: "n \<le> 59 \<Longrightarrow> \<exists>t. rx_directive DirM f (zpad 2 n @ r) = (f\<lparr>f_minute := n\<rparr>, r) # t"
  using rx_M_zpad[of n r] by auto

lemma dir_Lit: "\<exists>t. rx_directive (Lit c) f (c # r) = (f, r) # t"
  by simp

lemma dir_Spaces: "n < 100 \<Longrightarrow> \<exists>t. rx_directive Spaces f (CHR '' '' # zpad 2 n @ r) = (f, zpad 2 n @ r) # t"
  by (simp add: rx_spaces_digit)

lemma strptime_roundtrip:
  assumes v: "valid_date y mo d" and h: "h \<le> 23" and mi: "mi \<le> 59"
  shows "strptime (zpad 4 y @ ''-'' @ zpad 2 mo @ ''-'' @ zpad 2 d @ '' '' @ zpad 2 h @ '':'' @ zpad 2 mi)
           fmt_Ymd_HM = Some (mk_datetime y mo d h mi)"
proof -
  from v have y: "y < 10000" and mo: "1 \<le> mo" "mo \<le> 12" and d: "1 \<le> d" "d \<le> 31"
    by (auto simp: valid_date_def days_in_month_def split: if_splits)
  from h have h': "h < 100" by simp
  let ?f = "\<lparr>f_year = y, f_month = mo, f_day = d, f_hour = h, f_minute = mi\<rparr>"
  have "\<exists>t. rx_format fmt_Ymd_HM no_fields
          (zpad 4 y @ ''-'' @ zpad 2 mo @ ''-'' @ zpad 2 d @ '' '' @ zpad 2 h @ '':'' @ zpad 2 mi @ [])
        = (?f, []) # t"
    unfolding fmt_Ymd_HM_def fmt_Ymd_dash_def append.simps
    apply (rule rx_format_head, rule dir_Y[OF y])
    apply (rule rx_format_head, rule dir_Lit)
    apply (rule rx_format_head, rule dir_m[OF mo])
    apply (rule rx_format_head, rule dir_Lit)
    apply (rule rx_format_head, rule dir_d[OF d])
    apply (rule rx_format_head, rule dir_Spaces[OF h'])
    apply (rule rx_format_head, rule dir_H[OF h])
    apply (rule rx_format_head, rule dir_Lit)
    apply (rule rx_format_head, rule dir_M[OF mi])
    apply (simp add: no_fields_def)
    done
  then obtain t where "rx_format fmt_Ymd_HM no_fields
          (zpad 4 y @ ''-'' @ zpad 2 mo @ ''-'' @ zpad 2 d @ '' '' @ zpad 2 h @ '':'' @ zpad 2 mi)
        = (?f, []) # t" by auto
  with v show ?thesis by (simp add: strptime_def)
qed


section \<open>Properties of the time parser\<close>

lemma parse_date_loop_find:
  "parse_date_loop fmts s =
     (case List.find (\<lambda>fmt. strptime s fmt \<noteq> None) fmts of
        None \<Rightarrow> None
      | Some fmt \<Rightarrow> strptime s fmt)"
  by (induction fmts) (auto split: option.splits)

text \<open>
  Claim C9. \<open>parse_date\<close> tries \<open>%Y-%m-%d\<close>, \<open>%Y/%m/%d\<close>, \<open>%d-%m-%Y\<close>, \<open>%d/%m/%Y\<close> in
  this order and returns what the first format that parses gives; when none parses the
  result is \<open>None\<close>, a value and not an exception. The input \<open>01-02-2025\<close> fails under the
  first two formats and is read by the third as day 1, month 2, year 2025.
\<close>

theorem parse_date_first_format:
  "formats = [fmt_Ymd_dash, fmt_Ymd_slash, fmt_dmY_dash, fmt_dmY_slash]
   \<and> parse_date s =
       (case List.find (\<lambda>fmt. strptime s fmt \<noteq> None) formats of
          None \<Rightarrow> None
        | Some fmt \<Rightarrow> strptime s fmt)
   \<and> strptime ''01-02-2025'' fmt_Ymd_dash = None
   \<and> strptime ''01-02-2025'' fmt_Ymd_slash = None
   \<and> strptime ''01-02-2025'' fmt_dmY_dash = Some (mk_datetime 2025 2 1 0 0)
   \<and> parse_date ''01-02-2025'' = Some (mk_datetime 2025 2 1 0 0)"
proof -
  have a: "formats = [fmt_Ymd_dash, fmt_Ymd_slash, fmt_dmY_dash, fmt_dmY_slash]"
    by (simp add: formats_def)
  have b: "parse_date s =
     (case List.find (\<lambda>fmt. strptime s fmt \<noteq> None) formats of
        None \<Rightarrow> None
      | Some fmt \<Rightarrow> strptime s fmt)"
    unfolding parse_date_def by (rule parse_date_loop_find)
  have c: "strptime ''01-02-2025'' fmt_Ymd_dash = None" by (simp add: str_eval)
  have d: "strptime ''01-02-2025'' fmt_Ymd_slash = None" by (simp add: str_eval)
  have e: "strptime ''01-02-2025'' fmt_dmY_dash = Some (mk_datetime 2025 2 1 0 0)" by (simp add: str_eval)
  have f: "parse_date ''01-02-2025'' = Some (mk_datetime 2025 2 1 0 0)"
    by (simp add: parse_date_def formats_def c d e)
  from a b c d e f show ?thesis by blast
qed


section \<open>The result envelope\<close>

lemma envelope_failure: "envelope_ok (failure msg) \<longleftrightarrow> msg \<noteq> []"
  by (simp add: envelope_ok_def failure_def)

lemma envelope_success:
  "envelope_ok \<lparr>success = True, error = None, message = a, r_meeting = b, r_meetings = c,
     r_count = d, r_deleted_meeting = f\<rparr>"
  by (simp add: envelope_ok_def)

lemma envelope_list: "envelope_ok (fst (list_all_meetings e))"
  unfolding list_all_meetings_def Let_def
  by (simp add: envelope_failure envelope_success split: option.split sum.split)

lemma envelope_get: "envelope_ok (fst (get_meeting_details e d p t m))"
  unfolding get_meeting_details_def Let_def
  by (simp add: envelope_failure envelope_success split: option.split sum.split prod.split)

lemma envelope_schedule: "envelope_ok (fst (schedule_meeting e t d ti ps de))"
  unfolding schedule_meeting_def Let_def
  by (simp add: envelope_failure envelope_success conflict_error_def split: option.split sum.split prod.split)

lemma envelope_merge: "merge_fields m t d ti ps de = Inl r \<Longrightarrow> envelope_ok r"
  unfolding merge_fields_def Let_def
  by (auto simp: envelope_failure split: option.splits sum.splits if_splits)

lemma envelope_update: "envelope_ok (fst (update_meeting e m t d ti ps de))"
proof -
  obtain res calls where g: "get_meeting_details e None None None (Some m) = (res, calls)"
    by (cases "get_meeting_details e None None None (Some m)") auto
  show ?thesis
  proof (cases "merge_fields (hd (the (r_meetings res))) t d ti ps de")
    case (Inl r)
    then show ?thesis
      unfolding update_meeting_def Let_def g
      by (simp add: envelope_failure envelope_merge not_found_def)
  next
    case (Inr mt)
    then show ?thesis
      unfolding update_meeting_def Let_def g
      by (simp add: envelope_failure envelope_success conflict_error_def not_found_def
               split: option.split sum.split prod.split)
  qed
qed

lemma envelope_delete: "envelope_ok (fst (delete_meeting e m))"
  unfolding delete_meeting_def Let_def
  by (simp add: envelope_failure envelope_success not_found_def split: option.split sum.split prod.split)

lemma envelope_execute:
  "(case execute_tool e tool_name ti of
      Inl x \<Rightarrow> x = RuntimeError \<and> \<not> is_enabled e
    | Inr (r, calls) \<Rightarrow> is_enabled e \<and> envelope_ok r)"
  by (simp add: execute_tool_def tool_error_def envelope_failure case_prod_beta
        envelope_schedule envelope_get envelope_list envelope_update envelope_delete)

text \<open>
  Claim C2. The result of each of the five handlers, for any arguments and any behaviour
  of the clock, the configuration and the provider, satisfies the envelope invariant; and
  the dispatcher either returns such a result, which it does whenever the service is
  enabled, or leaves with the \<open>RuntimeError\<close> of the handlers' constructor, raised before
  its \<open>try\<close>, when the service is not enabled.
\<close>

theorem tool_results_envelope:
  "envelope_ok (fst (schedule_meeting e title date time participants description))
   \<and> envelope_ok (fst (get_meeting_details e date' participant title' meeting_id))
   \<and> envelope_ok (fst (list_all_meetings e))
   \<and> envelope_ok (fst (update_meeting e mid title'' date'' time'' participants'' description''))
   \<and> envelope_ok (fst (delete_meeting e mid'))
   \<and> (case execute_tool e tool_name ti of
         Inl x \<Rightarrow> x = RuntimeError \<and> \<not> is_enabled e
       | Inr (r, calls) \<Rightarrow> is_enabled e \<and> envelope_ok r)"
  by (simp add: envelope_schedule envelope_get envelope_list envelope_update envelope_delete
        envelope_execute)

lemmas time_eval = parse_time_def re_match_24_def re_match_12_def rx_digits_1_2_def rx_digits_2_def
  rx_lit_def rx_period_def hh_mm_def py_upper_def py_upper_char_def parse_date_def formats_def
  is_future_datetime_def Let_def

lemma quiet_list: "list_all_meetings quiet_env =
   (\<lparr>success = True, error = None,
                      message = Some ''No upcoming meetings in Google Calendar'',
                      r_meeting = None, r_meetings = Some [], r_count = Some 0,
                      r_deleted_meeting = None\<rparr>, [Get_events demo_now (mk_datetime 2025 7 1 9 0)])"
  by (simp add: list_all_meetings_def get_events_def quiet_env_def demo_now_def dt_eval)

lemma parse_time_1000: "parse_time ''10:00'' = Some ''10:00''"
  by (simp add: time_eval str_eval)

lemma parse_date_2020: "parse_date ''2020-01-01'' = Some (mk_datetime 2020 1 1 0 0)"
  by (simp add: time_eval str_eval)

lemma quiet_schedule_past: "schedule_meeting quiet_env ''Standup'' ''2020-01-01'' ''10:00'' None [] =
   (failure ''Cannot schedule meetings in the past'', [])"
  by (simp add: schedule_meeting_def parse_time_1000 parse_date_2020 quiet_env_def demo_now_def time_eval str_eval dt_eval)

lemma quiet_unknown_tool: "execute_tool quiet_env ''frobnicate'' no_input = Inr (failure ''Unknown tool: frobnicate'', [])"
  by (simp add: execute_tool_def quiet_env_def)

theorem tool_results_envelope_witness:
  "success (fst (list_all_meetings quiet_env))
   \<and> error (fst (list_all_meetings quiet_env)) = None
   \<and> \<not> success (fst (schedule_meeting quiet_env ''Standup'' ''2020-01-01'' ''10:00'' None []))
   \<and> error (fst (schedule_meeting quiet_env ''Standup'' ''2020-01-01'' ''10:00'' None [])) \<noteq> None
   \<and> execute_tool quiet_env ''frobnicate'' no_input = Inr (failure ''Unknown tool: frobnicate'', [])"
proof -
  have a: "success (fst (list_all_meetings quiet_env))" by (simp add: quiet_list)
  have b: "\<not> success (fst (schedule_meeting quiet_env ''Standup'' ''2020-01-01'' ''10:00'' None []))"
    by (simp add: quiet_schedule_past failure_def)
  note t = tool_results_envelope[where e = quiet_env and title = "''Standup''" and date = "''2020-01-01''"
      and time = "''10:00''" and participants = None and description = "[]"]
  have e1: "envelope_ok (fst (schedule_meeting quiet_env ''Standup'' ''2020-01-01'' ''10:00'' None []))"
    using t by (rule conjunct1)
  have e3: "envelope_ok (fst (list_all_meetings quiet_env))"
    using t by blast
  from a e3 have c: "error (fst (list_all_meetings quiet_env)) = None"
    unfolding envelope_ok_def by blast
  from b e1
  have d: "error (fst (schedule_meeting quiet_env ''Standup'' ''2020-01-01'' ''10:00'' None [])) \<noteq> None"
    unfolding envelope_ok_def by blast
  from a b c d quiet_unknown_tool show ?thesis by blast
qed

section \<open>Past dates\<close>

lemma strptime_valid:
  "strptime s fmt = Some t \<Longrightarrow> valid_date (year t) (month t) (day t)"
  by (auto simp: strptime_def mk_datetime_def split: list.splits if_splits prod.splits)

lemma parse_date_loop_valid:
  "parse_date_loop fmts s = Some t \<Longrightarrow> valid_date (year t) (month t) (day t)"
  by (induction fmts) (auto split: option.splits dest: strptime_valid)

lemma parse_date_valid: "parse_date s = Some t \<Longrightarrow> valid_date (year t) (month t) (day t)"
  unfolding parse_date_def by (rule parse_date_loop_valid)

lemma is_clock_hh_mm: "h \<le> 23 \<Longrightarrow> m \<le> 59 \<Longrightarrow> is_clock (hh_mm h m)"
  unfolding is_clock_def by blast

lemma parse_time_clock: "parse_time s = Some pt \<Longrightarrow> is_clock pt"
  unfolding parse_time_def Let_def
  by (auto simp: is_clock_hh_mm split: option.splits if_splits list.splits prod.splits)

lemma parse_time_form:
  "parse_time s = Some pt \<Longrightarrow> \<exists>h m. h \<le> 23 \<and> m \<le> 59 \<and> pt = hh_mm h m"
  using parse_time_clock[of s pt] unfolding is_clock_def by blast

lemma length_zpad2: "n < 100 \<Longrightarrow> length (zpad 2 n) = 2"
  by (simp add: zpad2)

lemma py_int_zpad2: "n < 100 \<Longrightarrow> py_int (zpad 2 n) = n"
proof -
  assume n: "n < 100"
  then have "n div 10 < 10" by simp
  then have "n div 10 mod 10 = n div 10" by simp
  with n show ?thesis by (simp add: zpad2)
qed

lemma combined_instant_hh_mm:
  "h \<le> 23 \<Longrightarrow> m \<le> 59 \<Longrightarrow>
   combined_instant pd (hh_mm h m) = mk_datetime (year pd) (month pd) (day pd) h m"
  by (simp add: combined_instant_def hh_mm_def length_zpad2 py_int_zpad2)

lemma is_future_combined:
  assumes "parse_date date = Some pd" "parse_time time = Some pt"
  shows "is_future_datetime n (strftime_date pd) pt \<longleftrightarrow> dt_less n (combined_instant pd pt)"
proof -
  from assms(2) obtain h m where hm: "h \<le> 23" "m \<le> 59" "pt = hh_mm h m"
    using parse_time_form by blast
  from parse_date_valid[OF assms(1)] hm
  have "strptime (strftime_date pd @ '' '' @ pt) fmt_Ymd_HM
          = Some (mk_datetime (year pd) (month pd) (day pd) h m)"
    using strptime_roundtrip[of "year pd" "month pd" "day pd" h m]
    by (simp add: strftime_date_def hh_mm_def)
  with hm show ?thesis
    by (simp add: is_future_datetime_def combined_instant_hh_mm)
qed

lemma parse_date_empty: "parse_date [] = None"
  by (simp add: parse_date_def formats_def str_eval)

lemma parse_time_empty: "parse_time [] = None"
  by (simp add: time_eval str_eval)

lemma schedule_not_future:
  assumes "title \<noteq> []" "parse_date date = Some pd" "parse_time time = Some pt"
    and "\<not> is_future_datetime (now e) (strftime_date pd) pt"
  shows "schedule_meeting e title date time participants description =
           (failure ''Cannot schedule meetings in the past'', [])"
proof -
  from assms(2) have "date \<noteq> []" using parse_date_empty by auto
  moreover from assms(3) have "time \<noteq> []" using parse_time_empty by auto
  ultimately show ?thesis using assms
    by (simp add: schedule_meeting_def)
qed

text \<open>
  Claim C6, as amended. For every title and a date and a time that both parse, if the
  instant they denote is not strictly after the clock reading of the call,
  \<open>schedule_meeting\<close> returns a failure and has made no call on the adapter: no event is
  fetched for the conflict check and none is created. The error is
  \<open>Cannot schedule meetings in the past\<close> when the title is non-empty; for the empty title
  it is the error of the check for required fields, which comes first.
\<close>

theorem schedule_rejects_past:
  assumes "parse_date date = Some pd" "parse_time time = Some pt"
    and "\<not> dt_less (now e) (combined_instant pd pt)"
  shows "schedule_meeting e title date time participants description =
           (failure (if title \<noteq> [] then ''Cannot schedule meetings in the past''
                     else ''Missing required fields (title, date, time)''), [])"
proof (cases "title = []")
  case True
  then show ?thesis by (simp add: schedule_meeting_def)
next
  case False
  with assms show ?thesis by (simp add: schedule_not_future is_future_combined)
qed

theorem schedule_rejects_past_witness:
  "parse_date ''2020-01-01'' = Some (mk_datetime 2020 1 1 0 0)
   \<and> parse_time ''10:00'' = Some ''10:00''
   \<and> \<not> dt_less (now quiet_env) (combined_instant (mk_datetime 2020 1 1 0 0) ''10:00'')
   \<and> schedule_meeting quiet_env ''Standup'' ''2020-01-01'' ''10:00'' (Some [''bob@example.com'']) ''daily''
       = (failure ''Cannot schedule meetings in the past'', [])"
proof -
  have a: "\<not> dt_less (now quiet_env) (combined_instant (mk_datetime 2020 1 1 0 0) ''10:00'')"
    by (simp add: quiet_env_def demo_now_def combined_instant_def dt_eval py_int_def digit_val_def)
  from schedule_rejects_past[OF parse_date_2020 parse_time_1000 a, of "''Standup''"]
    parse_date_2020 parse_time_1000 a
  show ?thesis by simp
qed

theorem schedule_rejects_past_counterexample:
  "parse_date ''2020-01-01'' = Some (mk_datetime 2020 1 1 0 0)
   \<and> parse_time ''10:00'' = Some ''10:00''
   \<and> \<not> dt_less (now quiet_env) (combined_instant (mk_datetime 2020 1 1 0 0) ''10:00'')
   \<and> schedule_meeting quiet_env [] ''2020-01-01'' ''10:00'' None []
       = (failure ''Missing required fields (title, date, time)'', [])
   \<and> error (fst (schedule_meeting quiet_env [] ''2020-01-01'' ''10:00'' None []))
       \<noteq> Some ''Cannot schedule meetings in the past''"
proof -
  have a: "\<not> dt_less (now quiet_env) (combined_instant (mk_datetime 2020 1 1 0 0) ''10:00'')"
    by (simp add: quiet_env_def demo_now_def combined_instant_def dt_eval py_int_def digit_val_def)
  have b: "schedule_meeting quiet_env [] ''2020-01-01'' ''10:00'' None []
       = (failure ''Missing required fields (title, date, time)'', [])"
    by (simp add: schedule_meeting_def)
  have c: "error (failure ''Missing required fields (title, date, time)'')
       \<noteq> Some ''Cannot schedule meetings in the past''"
    by (simp add: failure_def)
  from a b c parse_date_2020 parse_time_1000 show ?thesis by simp
qed

section \<open>Conflict detection\<close>

lemmas iso_eval = fromisoformat_def parse_hh_mm_ss_ff_def all_digits_def replace_Z_def
  convert_from_google_event_def or_else_def py_or_def attendee_name_def

lemma demo_convert: "convert_from_google_event demo_event = Some demo_meeting"
  by (simp add: demo_event_def demo_meeting_def iso_eval str_eval Let_def)

lemma conflict_loop_spec:
  assumes "plus_timedelta p 0 60 = Some p_end"
    and "\<forall>ev\<in>set events. \<exists>s s_end. event_start ev = Some s \<and> plus_timedelta s 0 60 = Some s_end"
  shows "conflict_loop p p_end ex events = Inr (spec_conflict p ex events)"
  using assms(2)
proof (induction events)
  case Nil
  then show ?case by (simp add: spec_conflict_def)
next
  case (Cons ev events)
  then obtain s s_end where s: "event_start ev = Some s" "plus_timedelta s 0 60 = Some s_end"
    by auto
  from Cons have ih: "conflict_loop p p_end ex events = Inr (spec_conflict p ex events)" by simp
  from s assms(1) show ?case
    using ih by (simp add: spec_conflict_def event_start_def spec_overlap_def)
qed

text \<open>
  Claim C3. When the proposed date and time parse, no date arithmetic overflows and the
  provider answers the request for the day \<open>[day_start, day_start + 1 day)\<close>,
  \<open>_check_time_conflict\<close> fetches exactly that day and returns the first of the fetched
  events, in the provider's order, that is not the event with the (non-empty) excluded
  remote id and whose start \<open>s\<close> satisfies \<open>proposed < s + 60min\<close> and
  \<open>s < proposed + 60min\<close>, both strict; it returns \<open>None\<close> when there is none. Against a
  meeting at 14:00, a proposal at 14:30 overlaps and one at 15:00 does not.
\<close>

theorem check_time_conflict_spec:
  assumes "strptime (date_str @ '' '' @ time_str) fmt_Ymd_HM = Some proposed"
    and "plus_timedelta proposed 0 60 = Some proposed_end"
    and "plus_timedelta (day_start proposed) 1 0 = Some day_end"
    and "is_enabled e"
    and "events_list e (day_start proposed) day_end = Returns items"
    and "events = List.map_filter convert_from_google_event items"
    and "\<forall>ev\<in>set events. \<exists>s s_end. event_start ev = Some s \<and> plus_timedelta s 0 60 = Some s_end"
  shows "check_time_conflict e date_str time_str exclude_event_id
           = (spec_conflict proposed exclude_event_id events, [Get_events (day_start proposed) day_end])
         \<and> spec_overlap (mk_datetime 2025 6 10 14 30) (mk_datetime 2025 6 10 14 0)
         \<and> \<not> spec_overlap (mk_datetime 2025 6 10 15 0) (mk_datetime 2025 6 10 14 0)"
proof -
  from assms(4,5,6) have g: "get_events e (day_start proposed) day_end = Inr events"
    by (simp add: get_events_def)
  have "check_time_conflict e date_str time_str exclude_event_id
           = (spec_conflict proposed exclude_event_id events, [Get_events (day_start proposed) day_end])"
    using assms(1,2,3) g conflict_loop_spec[OF assms(2) assms(7)]
    by (simp add: check_time_conflict_def day_start_def)
  moreover have "spec_overlap (mk_datetime 2025 6 10 14 30) (mk_datetime 2025 6 10 14 0)"
    by (simp add: spec_overlap_def dt_eval)
  moreover have "\<not> spec_overlap (mk_datetime 2025 6 10 15 0) (mk_datetime 2025 6 10 14 0)"
    by (simp add: spec_overlap_def dt_eval)
  ultimately show ?thesis by blast
qed

lemma strptime_1430: "strptime (''2025-06-10'' @ '' '' @ ''14:30'') fmt_Ymd_HM = Some (mk_datetime 2025 6 10 14 30)"
  by (simp add: str_eval)

lemma strptime_1500: "strptime (''2025-06-10'' @ '' '' @ ''15:00'') fmt_Ymd_HM = Some (mk_datetime 2025 6 10 15 0)"
  by (simp add: str_eval)

lemma demo_meeting_start: "event_start demo_meeting = Some (mk_datetime 2025 6 10 14 0)"
  by (simp add: event_start_def demo_meeting_def str_eval)

theorem check_time_conflict_spec_witness:
  "check_time_conflict busy_env ''2025-06-10'' ''14:30'' None
     = (Some demo_meeting, [Get_events (mk_datetime 2025 6 10 0 0) (mk_datetime 2025 6 11 0 0)])
   \<and> check_time_conflict busy_env ''2025-06-10'' ''15:00'' None
     = (None, [Get_events (mk_datetime 2025 6 10 0 0) (mk_datetime 2025 6 11 0 0)])
   \<and> check_time_conflict busy_env ''2025-06-10'' ''14:30'' (Some ''g1'')
     = (None, [Get_events (mk_datetime 2025 6 10 0 0) (mk_datetime 2025 6 11 0 0)])"
proof -
  have en: "is_enabled busy_env" by (simp add: busy_env_def quiet_env_def)
  have mf: "[demo_meeting] = List.map_filter convert_from_google_event [demo_event]"
    by (simp add: List.map_filter_simps demo_convert)
  have ok: "\<forall>ev\<in>set [demo_meeting]. \<exists>s s_end. event_start ev = Some s \<and> plus_timedelta s 0 60 = Some s_end"
    by (simp add: demo_meeting_start dt_eval)
  have d1: "day_start (mk_datetime 2025 6 10 14 30) = mk_datetime 2025 6 10 0 0"
    and d2: "day_start (mk_datetime 2025 6 10 15 0) = mk_datetime 2025 6 10 0 0"
    by (simp_all add: day_start_def mk_datetime_def)
  have de: "plus_timedelta (mk_datetime 2025 6 10 0 0) 1 0 = Some (mk_datetime 2025 6 11 0 0)"
    by (simp add: dt_eval)
  have l: "\<And>a b. events_list busy_env a b = Returns [demo_event]"
    by (simp add: busy_env_def)
  have e1: "plus_timedelta (mk_datetime 2025 6 10 14 30) 0 60 = Some (mk_datetime 2025 6 10 15 30)"
    and e2: "plus_timedelta (mk_datetime 2025 6 10 15 0) 0 60 = Some (mk_datetime 2025 6 10 16 0)"
    by (simp_all add: dt_eval)
  have s1: "spec_conflict (mk_datetime 2025 6 10 14 30) None [demo_meeting] = Some demo_meeting"
    by (simp add: spec_conflict_def demo_meeting_start spec_overlap_def truthy_def dt_eval)
  have s2: "spec_conflict (mk_datetime 2025 6 10 15 0) None [demo_meeting] = None"
    by (simp add: spec_conflict_def demo_meeting_start spec_overlap_def truthy_def dt_eval)
  have s3: "spec_conflict (mk_datetime 2025 6 10 14 30) (Some ''g1'') [demo_meeting] = None"
    by (simp add: spec_conflict_def truthy_def demo_meeting_def)
  have de1: "plus_timedelta (day_start (mk_datetime 2025 6 10 14 30)) 1 0 = Some (mk_datetime 2025 6 11 0 0)"
    and de2: "plus_timedelta (day_start (mk_datetime 2025 6 10 15 0)) 1 0 = Some (mk_datetime 2025 6 11 0 0)"
    by (simp_all only: d1 d2 de)
  from check_time_conflict_spec[OF strptime_1430 e1 de1 en l mf ok, of None]
       check_time_conflict_spec[OF strptime_1500 e2 de2 en l mf ok, of None]
       check_time_conflict_spec[OF strptime_1430 e1 de1 en l mf ok, of "Some ''g1''"]
  show ?thesis
    by (simp add: d1 d2 s1 s2 s3)
qed

section \<open>Fail-open conflict check, fail-closed future check\<close>

lemma check_fetch_error:
  assumes "strptime (date_str @ '' '' @ time_str) fmt_Ymd_HM = Some proposed"
    and "plus_timedelta (day_start proposed) 1 0 = Some day_end"
    and "get_events e (day_start proposed) day_end = Inl x"
  shows "fst (check_time_conflict e date_str time_str ex) = None"
  using assms
  by (simp add: check_time_conflict_def day_start_def Let_def split: option.split sum.split)

lemma check_loop_error:
  assumes "strptime (date_str @ '' '' @ time_str) fmt_Ymd_HM = Some proposed"
    and "plus_timedelta proposed 0 60 = Some proposed_end"
    and "plus_timedelta (day_start proposed) 1 0 = Some day_end"
    and "get_events e (day_start proposed) day_end = Inr events"
    and "conflict_loop proposed proposed_end ex events = Inl x"
  shows "fst (check_time_conflict e date_str time_str ex) = None"
  using assms
  by (simp add: check_time_conflict_def day_start_def Let_def)

lemma schedule_creates_call:
  assumes "title \<noteq> []" "parse_date date = Some pd" "parse_time time = Some pt"
    and "is_future_datetime (now e) (strftime_date pd) pt"
    and "fst (check_time_conflict e (strftime_date pd) pt None) = None"
  shows "snd (schedule_meeting e title date time participants description)
           = (if enable_conflict_detection e
              then snd (check_time_conflict e (strftime_date pd) pt None) else [])
             @ [Create_event (new_meeting e title (strftime_date pd) pt participants description)]"
proof -
  from assms(2) have d: "date \<noteq> []" using parse_date_empty by auto
  from assms(3) have t: "time \<noteq> []" using parse_time_empty by auto
  obtain calls where c: "check_time_conflict e (strftime_date pd) pt None = (None, calls)"
    using assms(5) by (cases "check_time_conflict e (strftime_date pd) pt None") auto
  show ?thesis
    using assms(1-4) d t c
    by (simp add: schedule_meeting_def new_meeting_def Let_def split: sum.split)
qed

lemma schedule_creates:
  assumes "title \<noteq> []" "parse_date date = Some pd" "parse_time time = Some pt"
    and "is_future_datetime (now e) (strftime_date pd) pt"
    and "fst (check_time_conflict e (strftime_date pd) pt None) = None"
  shows "\<exists>m. Create_event m \<in> set (snd (schedule_meeting e title date time participants description))
             \<and> m_title m = title \<and> m_date m = strftime_date pd \<and> m_time m = pt"
proof -
  have "m_title (new_meeting e title (strftime_date pd) pt participants description) = title"
    "m_date (new_meeting e title (strftime_date pd) pt participants description) = strftime_date pd"
    "m_time (new_meeting e title (strftime_date pd) pt participants description) = pt"
    by (simp_all add: new_meeting_def)
  moreover have "Create_event (new_meeting e title (strftime_date pd) pt participants description)
     \<in> set (snd (schedule_meeting e title date time participants description))"
    by (simp add: schedule_creates_call[OF assms])
  ultimately show ?thesis by blast
qed

text \<open>
  Claim C7. An exception raised while the day's events are fetched, or while a fetched
  event is parsed in the loop, makes \<open>_check_time_conflict\<close> return \<open>None\<close>, and with that
  answer \<open>schedule_meeting\<close> goes on to create the event; whereas a date and time that do
  not parse together make \<open>is_future_datetime\<close> return \<open>False\<close>, and on \<open>False\<close>
  \<open>schedule_meeting\<close> rejects the meeting as being in the past, with no adapter call.
\<close>

theorem fail_open_fail_closed:
  "(strptime (date_str @ '' '' @ time_str) fmt_Ymd_HM = Some proposed
      \<and> plus_timedelta (day_start proposed) 1 0 = Some day_end
      \<and> get_events e (day_start proposed) day_end = Inl x
     \<longrightarrow> fst (check_time_conflict e date_str time_str ex) = None)
   \<and> (strptime (date_str @ '' '' @ time_str) fmt_Ymd_HM = Some proposed
      \<and> plus_timedelta proposed 0 60 = Some proposed_end
      \<and> plus_timedelta (day_start proposed) 1 0 = Some day_end
      \<and> get_events e (day_start proposed) day_end = Inr events
      \<and> conflict_loop proposed proposed_end ex events = Inl x
     \<longrightarrow> fst (check_time_conflict e date_str time_str ex) = None)
   \<and> (title \<noteq> [] \<and> parse_date date = Some pd \<and> parse_time time = Some pt
      \<and> is_future_datetime (now e) (strftime_date pd) pt
      \<and> fst (check_time_conflict e (strftime_date pd) pt None) = None
     \<longrightarrow> (\<exists>m. Create_event m \<in> set (snd (schedule_meeting e title date time participants description))
              \<and> m_title m = title \<and> m_date m = strftime_date pd \<and> m_time m = pt))
   \<and> (strptime (date_str @ '' '' @ time_str) fmt_Ymd_HM = None
     \<longrightarrow> \<not> is_future_datetime n date_str time_str)
   \<and> (title \<noteq> [] \<and> parse_date date = Some pd \<and> parse_time time = Some pt
      \<and> \<not> is_future_datetime (now e) (strftime_date pd) pt
     \<longrightarrow> schedule_meeting e title date time participants description
           = (failure ''Cannot schedule meetings in the past'', []))"
  using check_fetch_error check_loop_error schedule_creates schedule_not_future
  by (simp add: is_future_datetime_def)

text \<open>Sample evaluations.\<close>

lemma parse_date_june10: "parse_date ''2025-06-10'' = Some (mk_datetime 2025 6 10 0 0)"
  by (simp add: time_eval str_eval)

lemma strftime_june10: "strftime_date (mk_datetime 2025 6 10 0 0) = ''2025-06-10''"
  by (simp add: str_eval)

lemma parse_time_1400: "parse_time ''14:00'' = Some ''14:00''"
  by (simp add: time_eval str_eval)

lemma strptime_1400:
  "strptime (''2025-06-10'' @ '' '' @ ''14:00'') fmt_Ymd_HM = Some (mk_datetime 2025 6 10 14 0)"
  by (simp add: str_eval)

lemma june10_future: "is_future_datetime demo_now ''2025-06-10'' ''14:00''"
  using strptime_1400 by (simp add: is_future_datetime_def demo_now_def dt_eval)

theorem fail_open_fail_closed_witness:
  "fst (check_time_conflict raising_env ''2025-06-10'' ''14:00'' None) = None
   \<and> (\<exists>m. Create_event m \<in> set (snd (schedule_meeting raising_env ''Standup'' ''2025-06-10'' ''14:00'' None []))
          \<and> m_title m = ''Standup'' \<and> m_date m = ''2025-06-10'' \<and> m_time m = ''14:00'')
   \<and> \<not> is_future_datetime demo_now ''tomorrow'' ''noon''
   \<and> schedule_meeting quiet_env ''Standup'' ''2020-01-01'' ''10:00'' None []
       = (failure ''Cannot schedule meetings in the past'', [])"
proof -
  have n: "now raising_env = demo_now" "now quiet_env = demo_now"
    by (simp_all add: raising_env_def busy_env_def quiet_env_def)
  have ds: "plus_timedelta (day_start (mk_datetime 2025 6 10 14 0)) 1 0 = Some (mk_datetime 2025 6 11 0 0)"
    by (simp add: day_start_def dt_eval)
  have ge: "get_events raising_env (day_start (mk_datetime 2025 6 10 14 0)) (mk_datetime 2025 6 11 0 0)
              = Inl OtherException"
    by (simp add: get_events_def raising_env_def busy_env_def quiet_env_def)
  have bad: "strptime (''tomorrow'' @ '' '' @ ''noon'') fmt_Ymd_HM = None"
    by (simp add: str_eval)
  have past: "\<not> is_future_datetime demo_now (strftime_date (mk_datetime 2020 1 1 0 0)) ''10:00''"
    by (simp add: is_future_datetime_def demo_now_def str_eval dt_eval)
  note t1 = fail_open_fail_closed[where date_str = "''2025-06-10''" and time_str = "''14:00''"
      and proposed = "mk_datetime 2025 6 10 14 0" and e = raising_env
      and day_end = "mk_datetime 2025 6 11 0 0" and x = OtherException and ex = None
      and title = "''Standup''" and date = "''2025-06-10''" and time = "''14:00''"
      and pd = "mk_datetime 2025 6 10 0 0" and pt = "''14:00''" and participants = None
      and description = "[]"]
  note t2 = fail_open_fail_closed[where date_str = "''tomorrow''" and time_str = "''noon''"
      and n = demo_now and e = quiet_env
      and title = "''Standup''" and date = "''2020-01-01''" and time = "''10:00''"
      and pd = "mk_datetime 2020 1 1 0 0" and pt = "''10:00''" and participants = None
      and description = "[]"]
  have a: "fst (check_time_conflict raising_env ''2025-06-10'' ''14:00'' None) = None"
    using t1 strptime_1400 ds ge by blast
  have b: "\<exists>m. Create_event m \<in> set (snd (schedule_meeting raising_env ''Standup'' ''2025-06-10'' ''14:00'' None []))
          \<and> m_title m = ''Standup'' \<and> m_date m = ''2025-06-10'' \<and> m_time m = ''14:00''"
    using t1 a parse_date_june10 parse_time_1400 june10_future
    by (simp add: strftime_june10 n)
  have c: "\<not> is_future_datetime demo_now ''tomorrow'' ''noon''"
    using t2 bad by blast
  have d: "schedule_meeting quiet_env ''Standup'' ''2020-01-01'' ''10:00'' None []
       = (failure ''Cannot schedule meetings in the past'', [])"
    using t2 past parse_date_2020 parse_time_1000 by (simp add: n)
  from a b c d show ?thesis by blast
qed

section \<open>Updating a meeting\<close>

lemma merge_fields_merged:
  "merge_fields f title date time ps desc = Inr m \<Longrightarrow> merged f title date time ps desc m"
  unfolding merge_fields_def merged_def Let_def
  by (auto split: if_splits option.splits sum.splits)

lemma get_meeting_details_reads: "only_reads (snd (get_meeting_details e d p t i))"
  unfolding get_meeting_details_def Let_def only_reads_def
  by (simp split: option.split sum.split prod.split)

lemma check_time_conflict_reads: "only_reads (snd (check_time_conflict e d t x))"
  unfolding check_time_conflict_def Let_def only_reads_def
  by (simp split: option.split sum.split prod.split)

lemma only_reads_no_update: "only_reads calls \<Longrightarrow> Update_event m g \<notin> set calls"
  by (auto simp: only_reads_def list_all_iff)

lemma only_reads_append [simp]: "only_reads (a @ b) \<longleftrightarrow> only_reads a \<and> only_reads b"
  by (simp add: only_reads_def)

text \<open>\<open>update_meeting\<close> once the meeting is resolved.\<close>

lemma update_meeting_resolved:
  assumes "fetched_meeting e meeting_id = Some f" "truthy (m_google_event_id f)"
  shows "update_meeting e meeting_id title date time ps desc =
     (let calls = snd (get_meeting_details e None None None (Some meeting_id))
      in case merge_fields f title date time ps desc of
           Inl r \<Rightarrow> (r, calls)
         | Inr m \<Rightarrow>
             (let (conflict, calls2) =
                    (if truthy date \<or> truthy time
                     then check_time_conflict e (m_date m) (m_time m) (m_google_event_id f)
                     else (None, []))
              in case conflict of
                   Some c \<Rightarrow> (failure (conflict_error c), calls @ calls2)
                 | None \<Rightarrow>
                     (case update_event e m (the (m_google_event_id f)) of
                        Inl x \<Rightarrow>
                          (failure (''Error updating meeting: '' @ exn_str e x),
                           calls @ calls2 @ [Update_event m (the (m_google_event_id f))])
                      | Inr ok \<Rightarrow>
                          if ok
                          then (\<lparr>success = True, error = None,
                                 message = Some (''Successfully updated meeting '' @ [CHR 0x27]
                                    @ m_title m @ [CHR 0x27] @ '' in Google Calendar '' @ check_mark),
                                 r_meeting = Some m, r_meetings = None, r_count = None,
                                 r_deleted_meeting = None\<rparr>,
                                calls @ calls2 @ [Update_event m (the (m_google_event_id f))])
                          else (failure ''Failed to update event in Google Calendar'',
                                calls @ calls2 @ [Update_event m (the (m_google_event_id f))]))))"
proof -
  obtain res calls where g: "get_meeting_details e None None None (Some meeting_id) = (res, calls)"
    by (cases "get_meeting_details e None None None (Some meeting_id)") auto
  from assms(1) g have r: "success res" "or_else (r_meetings res) [] \<noteq> []" "hd (the (r_meetings res)) = f"
    by (auto simp: fetched_meeting_def Let_def split: if_splits)
  show ?thesis
    unfolding update_meeting_def g
    using r assms(2) by (simp add: Let_def)
qed

lemma update_calls:
  assumes "fetched_meeting e meeting_id = Some f" "truthy (m_google_event_id f)"
    and "Update_event m g \<in> set (snd (update_meeting e meeting_id title date time ps desc))"
  shows "g = the (m_google_event_id f) \<and> merge_fields f title date time ps desc = Inr m"
proof -
  note r1 = only_reads_no_update[OF get_meeting_details_reads, of m g e None None None "Some meeting_id"]
  show ?thesis
  proof (cases "merge_fields f title date time ps desc")
    case (Inl r)
    with assms r1 show ?thesis
      by (simp add: update_meeting_resolved Let_def)
  next
    case (Inr m')
    obtain conflict calls2 where c: "(if truthy date \<or> truthy time
                     then check_time_conflict e (m_date m') (m_time m') (m_google_event_id f)
                     else (None, [])) = (conflict, calls2)"
      by (cases "(if truthy date \<or> truthy time
                     then check_time_conflict e (m_date m') (m_time m') (m_google_event_id f)
                     else (None, []))") auto
    then have "only_reads calls2"
      using check_time_conflict_reads[of e "m_date m'" "m_time m'" "m_google_event_id f"]
      by (auto simp: only_reads_def split: if_splits)
    then have r2: "Update_event m g \<notin> set calls2" by (rule only_reads_no_update)
    from assms r1 r2 Inr c show ?thesis
      by (auto simp add: update_meeting_resolved Let_def split: option.splits sum.splits if_splits)
  qed
qed

lemma update_returned:
  assumes "fetched_meeting e meeting_id = Some f" "truthy (m_google_event_id f)"
    and "r_meeting (fst (update_meeting e meeting_id title date time ps desc)) = Some m"
  shows "merge_fields f title date time ps desc = Inr m
         \<and> Update_event m (the (m_google_event_id f))
              \<in> set (snd (update_meeting e meeting_id title date time ps desc))"
proof (cases "merge_fields f title date time ps desc")
  case (Inl r)
  then have "r_meeting r = None"
    unfolding merge_fields_def Let_def
    by (auto simp: failure_def split: if_splits option.splits sum.splits)
  with assms Inl show ?thesis
    by (simp add: update_meeting_resolved Let_def)
next
  case (Inr m')
  with assms show ?thesis
    by (auto simp add: update_meeting_resolved Let_def failure_def
          split: option.splits sum.splits if_splits prod.splits)
qed

lemma update_conflict_check:
  assumes "fetched_meeting e meeting_id = Some f" "truthy (m_google_event_id f)"
    and "merge_fields f title date time ps desc = Inr m" "truthy date \<or> truthy time"
  shows "case fst (check_time_conflict e (m_date m) (m_time m) (m_google_event_id f)) of
           Some c \<Rightarrow> fst (update_meeting e meeting_id title date time ps desc) = failure (conflict_error c)
         | None \<Rightarrow> Update_event m (the (m_google_event_id f))
                     \<in> set (snd (update_meeting e meeting_id title date time ps desc))"
  using assms
  by (cases "check_time_conflict e (m_date m) (m_time m) (m_google_event_id f)")
     (auto simp add: update_meeting_resolved Let_def split: option.splits sum.splits)

text \<open>
  Claim C5. For a meeting that \<open>update_meeting\<close> resolves, with a remote id: the meeting
  handed to the adapter's \<open>update_event\<close>, and the meeting returned, have each supplied
  field at its new value and every other field as fetched, and the update goes to the
  fetched remote id; so with only \<open>time\<close> supplied, title, participants, description (and
  date) are the fetched ones. When date or time was supplied, the conflict check that
  decides the outcome is the one that excludes the meeting's own remote id: its conflict
  is the failure returned, and without one \<open>update_event\<close> is called.
\<close>

theorem update_merge_frame:
  assumes "fetched_meeting e meeting_id = Some fetched" "truthy (m_google_event_id fetched)"
  shows
    "(\<forall>m g. Update_event m g \<in> set (snd (update_meeting e meeting_id None None (Some time) None None))
              \<or> r_meeting (fst (update_meeting e meeting_id None None (Some time) None None)) = Some m
           \<longrightarrow> m_title m = m_title fetched \<and> m_participants m = m_participants fetched
               \<and> m_description m = m_description fetched \<and> m_date m = m_date fetched)
     \<and> (\<forall>m g. Update_event m g \<in> set (snd (update_meeting e meeting_id title date time' ps desc))
           \<longrightarrow> g = the (m_google_event_id fetched) \<and> merged fetched title date time' ps desc m)
     \<and> (\<forall>m. r_meeting (fst (update_meeting e meeting_id title date time' ps desc)) = Some m
           \<longrightarrow> merged fetched title date time' ps desc m
               \<and> Update_event m (the (m_google_event_id fetched))
                    \<in> set (snd (update_meeting e meeting_id title date time' ps desc)))
     \<and> (\<forall>m. merge_fields fetched title date time' ps desc = Inr m \<and> (truthy date \<or> truthy time')
           \<longrightarrow> (case fst (check_time_conflict e (m_date m) (m_time m) (m_google_event_id fetched)) of
                  Some c \<Rightarrow> fst (update_meeting e meeting_id title date time' ps desc)
                             = failure (conflict_error c)
                | None \<Rightarrow> Update_event m (the (m_google_event_id fetched))
                             \<in> set (snd (update_meeting e meeting_id title date time' ps desc))))"
proof -
  have a: "\<And>m g title date time' ps desc.
      Update_event m g \<in> set (snd (update_meeting e meeting_id title date time' ps desc))
      \<Longrightarrow> g = the (m_google_event_id fetched) \<and> merged fetched title date time' ps desc m"
    using update_calls[OF assms] merge_fields_merged by blast
  have b: "\<And>m title date time' ps desc.
      r_meeting (fst (update_meeting e meeting_id title date time' ps desc)) = Some m
      \<Longrightarrow> merged fetched title date time' ps desc m
          \<and> Update_event m (the (m_google_event_id fetched))
               \<in> set (snd (update_meeting e meeting_id title date time' ps desc))"
    using update_returned[OF assms] merge_fields_merged by blast
  have c: "\<And>m. merged fetched None None (Some time) None None m
      \<Longrightarrow> m_title m = m_title fetched \<and> m_participants m = m_participants fetched
               \<and> m_description m = m_description fetched \<and> m_date m = m_date fetched"
    by (simp add: merged_def truthy_def)
  have d: "\<And>m. merge_fields fetched title date time' ps desc = Inr m \<Longrightarrow> truthy date \<or> truthy time'
      \<Longrightarrow> (case fst (check_time_conflict e (m_date m) (m_time m) (m_google_event_id fetched)) of
                  Some c \<Rightarrow> fst (update_meeting e meeting_id title date time' ps desc)
                             = failure (conflict_error c)
                | None \<Rightarrow> Update_event m (the (m_google_event_id fetched))
                             \<in> set (snd (update_meeting e meeting_id title date time' ps desc)))"
    using update_conflict_check[OF assms] by blast
  show ?thesis
    using a b c d by blast
qed

lemma busy_details:
  "get_meeting_details busy_env None None None (Some ''g1'') =
     (\<lparr>success = True, error = None, message = Some ''Found 1 meeting(s) in Google Calendar'',
       r_meeting = None, r_meetings = Some [demo_meeting], r_count = Some 1,
       r_deleted_meeting = None\<rparr>,
      [Get_events demo_now (mk_datetime 2025 7 1 9 0)])"
proof -
  have p: "plus_timedelta demo_now 30 0 = Some (mk_datetime 2025 7 1 9 0)"
    by (simp add: demo_now_def dt_eval)
  have g: "get_events busy_env demo_now (mk_datetime 2025 7 1 9 0) = Inr [demo_meeting]"
    by (simp add: get_events_def busy_env_def quiet_env_def List.map_filter_simps demo_convert)
  have n: "now busy_env = demo_now" by (simp add: busy_env_def quiet_env_def)
  have f: "m_google_event_id demo_meeting = Some ''g1''" by (simp add: demo_meeting_def)
  have l: "py_dec (Suc 0) = ''1''"
    by (simp add: py_dec.simps digit_char_def)
  show ?thesis
    unfolding get_meeting_details_def Let_def
    by (simp add: truthy_def n p g f l del: One_nat_def)
qed

lemma busy_fetched: "fetched_meeting busy_env ''g1'' = Some demo_meeting"
  by (simp add: fetched_meeting_def busy_details or_else_def)

lemma busy_gid: "truthy (m_google_event_id demo_meeting)"
  by (simp add: demo_meeting_def truthy_def)

lemma parse_time_1600: "parse_time ''16:00'' = Some ''16:00''"
  by (simp add: time_eval str_eval)

lemma busy_update_event:
  assumes "strptime (m_date m @ '' '' @ m_time m) fmt_Ymd_HM = Some s" "plus_timedelta s 0 60 = Some s'"
  shows "update_event busy_env m g = Inr True"
  using assms
  by (simp add: update_event_def convert_to_google_event_def busy_env_def quiet_env_def Let_def
        split: prod.split)

lemma busy_check_own:
  "check_time_conflict busy_env ''2025-06-10'' ''16:00'' (Some ''g1'') =
     (None, [Get_events (mk_datetime 2025 6 10 0 0) (mk_datetime 2025 6 11 0 0)])"
proof -
  have s: "strptime (''2025-06-10'' @ '' '' @ ''16:00'') fmt_Ymd_HM = Some (mk_datetime 2025 6 10 16 0)"
    by (simp add: str_eval)
  have e: "plus_timedelta (mk_datetime 2025 6 10 16 0) 0 60 = Some (mk_datetime 2025 6 10 17 0)"
    by (simp add: dt_eval)
  have d: "plus_timedelta (mk_datetime 2025 6 10 16 0\<lparr>hour := 0, minute := 0, second := 0, microsecond := 0\<rparr>) 1 0
             = Some (mk_datetime 2025 6 11 0 0)"
    by (simp add: dt_eval)
  have d0: "mk_datetime 2025 6 10 16 0\<lparr>hour := 0, minute := 0, second := 0, microsecond := 0\<rparr>
             = mk_datetime 2025 6 10 0 0"
    by (simp add: mk_datetime_def)
  have g: "get_events busy_env (mk_datetime 2025 6 10 0 0) (mk_datetime 2025 6 11 0 0) = Inr [demo_meeting]"
    by (simp add: get_events_def busy_env_def quiet_env_def List.map_filter_simps demo_convert)
  have f: "m_google_event_id demo_meeting = Some ''g1''" by (simp add: demo_meeting_def)
  show ?thesis
    using s e d g
    by (simp add: check_time_conflict_def d0 truthy_def f Let_def)
qed

theorem update_merge_frame_witness:
  "fetched_meeting busy_env ''g1'' = Some demo_meeting
   \<and> truthy (m_google_event_id demo_meeting)
   \<and> update_meeting busy_env ''g1'' None None (Some ''16:00'') None None =
       (\<lparr>success = True, error = None,
         message = Some (''Successfully updated meeting '' @ [CHR 0x27] @ ''Standup'' @ [CHR 0x27]
                          @ '' in Google Calendar '' @ check_mark),
         r_meeting = Some (demo_meeting\<lparr>m_time := ''16:00''\<rparr>), r_meetings = None, r_count = None,
         r_deleted_meeting = None\<rparr>,
        [Get_events demo_now (mk_datetime 2025 7 1 9 0),
         Get_events (mk_datetime 2025 6 10 0 0) (mk_datetime 2025 6 11 0 0),
         Update_event (demo_meeting\<lparr>m_time := ''16:00''\<rparr>) ''g1''])
   \<and> m_title (demo_meeting\<lparr>m_time := ''16:00''\<rparr>) = m_title demo_meeting
   \<and> m_participants (demo_meeting\<lparr>m_time := ''16:00''\<rparr>) = m_participants demo_meeting
   \<and> m_description (demo_meeting\<lparr>m_time := ''16:00''\<rparr>) = m_description demo_meeting"
proof -
  let ?m = "demo_meeting\<lparr>m_time := ''16:00''\<rparr>"
  have mf: "merge_fields demo_meeting None None (Some ''16:00'') None None = Inr ?m"
    by (simp add: merge_fields_def truthy_def parse_time_1600)
  have dt: "m_date ?m = ''2025-06-10''" "m_time ?m = ''16:00''" "m_title ?m = ''Standup''"
    "the (m_google_event_id demo_meeting) = ''g1''" "m_google_event_id demo_meeting = Some ''g1''"
    by (simp_all add: demo_meeting_def)
  have s: "strptime (m_date ?m @ '' '' @ m_time ?m) fmt_Ymd_HM = Some (mk_datetime 2025 6 10 16 0)"
    unfolding dt by (simp add: str_eval)
  have e: "plus_timedelta (mk_datetime 2025 6 10 16 0) 0 60 = Some (mk_datetime 2025 6 10 17 0)"
    by (simp add: dt_eval)
  have u: "update_meeting busy_env ''g1'' None None (Some ''16:00'') None None =
       (\<lparr>success = True, error = None,
         message = Some (''Successfully updated meeting '' @ [CHR 0x27] @ ''Standup'' @ [CHR 0x27]
                          @ '' in Google Calendar '' @ check_mark),
         r_meeting = Some ?m, r_meetings = None, r_count = None,
         r_deleted_meeting = None\<rparr>,
        [Get_events demo_now (mk_datetime 2025 7 1 9 0),
         Get_events (mk_datetime 2025 6 10 0 0) (mk_datetime 2025 6 11 0 0),
         Update_event ?m ''g1''])"
    by (simp add: update_meeting_resolved[OF busy_fetched busy_gid] mf busy_details truthy_def
          dt busy_check_own busy_update_event[OF s e] del: append.simps)
  have r: "r_meeting (fst (update_meeting busy_env ''g1'' None None (Some ''16:00'') None None)) = Some ?m"
    by (simp add: u)
  from update_merge_frame[OF busy_fetched busy_gid, of "''16:00''"] r
  have "m_title ?m = m_title demo_meeting \<and> m_participants ?m = m_participants demo_meeting
        \<and> m_description ?m = m_description demo_meeting"
    by blast
  with busy_fetched busy_gid u show ?thesis by blast
qed

lemma merge_empty_title:
  "merge_fields f (Some []) date time ps desc = merge_fields f None date time ps desc"
  by (simp add: merge_fields_def truthy_def Let_def)

lemma merge_empty_participants:
  "merge_fields f title date time (Some []) desc = merge_fields f title date time None desc"
  by (simp add: merge_fields_def Let_def cong: sum.case_cong)

section \<open>Participants on the write path\<close>

lemma in_set_dropWhile: "x \<in> set xs \<Longrightarrow> \<not> P x \<Longrightarrow> x \<in> set (dropWhile P xs)"
  by (induction xs) auto

lemma in_set_py_strip: "\<not> is_space c \<Longrightarrow> c \<in> set (py_strip s) \<longleftrightarrow> c \<in> set s"
proof
  assume "c \<in> set (py_strip s)"
  then show "c \<in> set s"
    unfolding py_strip_def by (auto dest!: set_dropWhileD)
next
  assume "\<not> is_space c" "c \<in> set s"
  then show "c \<in> set (py_strip s)"
    unfolding py_strip_def by (simp add: in_set_dropWhile)
qed

lemma is_email_strip [simp]: "is_email (py_strip p) \<longleftrightarrow> is_email p"
  by (simp add: is_email_def in_set_py_strip is_space_def)

lemma split_participants_eq:
  "split_participants ps a n = (a @ email_participants ps, n @ other_participants ps)"
  by (induction ps arbitrary: a n)
     (simp_all add: email_participants_def other_participants_def Let_def)

lemma py_strip_last: "py_strip p \<noteq> [] \<Longrightarrow> \<not> is_space (last (py_strip p))"
proof -
  assume a: "py_strip p \<noteq> []"
  let ?r = "dropWhile is_space (rev (dropWhile is_space p))"
  from a have "?r \<noteq> []" by (simp add: py_strip_def)
  then have "\<not> is_space (hd ?r)" by (rule hd_dropWhile)
  moreover have "last (py_strip p) = hd ?r"
    using \<open>?r \<noteq> []\<close> by (simp add: py_strip_def last_rev)
  ultimately show ?thesis by simp
qed

lemma py_join_last:
  "xs \<noteq> [] \<Longrightarrow> last xs \<noteq> [] \<Longrightarrow> py_join sep xs \<noteq> [] \<and> last (py_join sep xs) = last (last xs)"
  by (induction sep xs rule: py_join.induct) auto

lemma py_strip_core:
  assumes "s \<noteq> []" "\<not> is_space (hd s)" "\<not> is_space (last s)" "list_all is_space w"
  shows "py_strip (w @ s) = s"
proof -
  from assms(1,2,4) have "dropWhile is_space (w @ s) = s"
    by (induction w) (auto simp: neq_Nil_conv)
  moreover from assms(1,3) have "dropWhile is_space (rev s) = rev s"
    by (cases s rule: rev_cases) auto
  ultimately show ?thesis by (simp add: py_strip_def)
qed

lemma convert_parts:
  assumes "convert_to_google_event e m = Inr b"
  shows "b_attendees b =
           (if email_participants (m_participants m) = [] then None
            else Some (email_participants (m_participants m)))"
    and "b_description b =
           (if other_participants (m_participants m) = [] then m_description m
            else if m_description m \<noteq> []
            then m_description m @ [CHR 0x0A, CHR 0x0A] @ participants_marker
                   @ py_join '', '' (other_participants (m_participants m))
            else py_strip ([CHR 0x0A, CHR 0x0A] @ participants_marker
                   @ py_join '', '' (other_participants (m_participants m))))"
  using assms
  by (auto simp add: convert_to_google_event_def split_participants_eq participants_marker_def Let_def
        split: option.splits)

lemma marker_kept:
  assumes "others \<noteq> []" "[] \<notin> set others" "\<forall>p\<in>set others. \<exists>q. p = py_strip q"
  shows "py_strip ([CHR 0x0A, CHR 0x0A] @ participants_marker @ py_join '', '' others)
           = participants_marker @ py_join '', '' others"
proof -
  from assms(1,2) have l: "last others \<noteq> []" by (metis last_in_set)
  from assms(1,3) obtain q where q: "last others = py_strip q" by (metis last_in_set)
  from py_join_last[OF assms(1) l] have j: "py_join '', '' others \<noteq> []"
    "last (py_join '', '' others) = last (last others)" by auto
  from l q have "\<not> is_space (last (last others))" using py_strip_last by metis
  with j have "\<not> is_space (last (participants_marker @ py_join '', '' others))" by simp
  moreover have "\<not> is_space (hd (participants_marker @ py_join '', '' others))"
    by (simp add: participants_marker_def is_space_def)
  moreover have "list_all is_space [CHR 0x0A, CHR 0x0A]" by (simp add: is_space_def)
  moreover have "participants_marker @ py_join '', '' others \<noteq> []"
    by (simp add: participants_marker_def)
  ultimately show ?thesis using py_strip_core by blast
qed

text \<open>
  Claim C4, as amended. When a meeting is converted to a provider event, every non-empty
  participant string with \<open>@\<close> and \<open>.\<close> becomes an attendee whose email is that string
  stripped of surrounding whitespace, in order, and no other string becomes an attendee;
  the other non-empty strings, stripped and joined with \<open>", "\<close>, are appended to the
  description after two newlines and \<open>Participants: \<close> (the whole is stripped when the
  description was empty), so that, when none of them is blank, the description ends with
  \<open>Participants: \<close> and the joined strings. For \<open>["alice@example.com", "Bob"]\<close> and an
  empty description: the one attendee \<open>alice@example.com\<close>, the description
  \<open>Participants: Bob\<close>.
\<close>

theorem participants_partition:
  assumes "convert_to_google_event e m = Inr b"
  shows "b_attendees b =
           (if email_participants (m_participants m) = [] then None
            else Some (email_participants (m_participants m)))
     \<and> b_description b =
           (if other_participants (m_participants m) = [] then m_description m
            else if m_description m \<noteq> []
            then m_description m @ [CHR 0x0A, CHR 0x0A] @ participants_marker
                   @ py_join '', '' (other_participants (m_participants m))
            else py_strip ([CHR 0x0A, CHR 0x0A] @ participants_marker
                   @ py_join '', '' (other_participants (m_participants m))))
     \<and> (other_participants (m_participants m) \<noteq> [] \<and> [] \<notin> set (other_participants (m_participants m))
          \<longrightarrow> (\<exists>pre. b_description b =
                       pre @ participants_marker @ py_join '', '' (other_participants (m_participants m))))
     \<and> (case convert_to_google_event e alice_bob_meeting of
           Inr b' \<Rightarrow> b_attendees b' = Some [''alice@example.com'']
                      \<and> b_description b' = ''Participants: Bob''
         | Inl x \<Rightarrow> False)"
proof -
  let ?o = "other_participants (m_participants m)"
  note p = convert_parts[OF assms]
  have s: "\<forall>p\<in>set ?o. \<exists>q. p = py_strip q"
    by (auto simp: other_participants_def)
  have k: "?o \<noteq> [] \<and> [] \<notin> set ?o
          \<longrightarrow> (\<exists>pre. b_description b = pre @ participants_marker @ py_join '', '' ?o)"
  proof (intro impI, elim conjE)
    assume o: "?o \<noteq> []" "[] \<notin> set ?o"
    show "\<exists>pre. b_description b = pre @ participants_marker @ py_join '', '' ?o"
    proof (cases "m_description m = []")
      case True
      with o p(2) marker_kept[OF o s] have "b_description b = [] @ participants_marker @ py_join '', '' ?o"
        by simp
      then show ?thesis by blast
    next
      case False
      with o p(2) have "b_description b = (m_description m @ [CHR 0x0A, CHR 0x0A]) @ participants_marker @ py_join '', '' ?o"
        by simp
      then show ?thesis by blast
    qed
  qed
  have ex: "(case convert_to_google_event e alice_bob_meeting of
           Inr b' \<Rightarrow> b_attendees b' = Some [''alice@example.com'']
                      \<and> b_description b' = ''Participants: Bob''
         | Inl x \<Rightarrow> False)"
  proof -
    have st: "strptime (m_date alice_bob_meeting @ '' '' @ m_time alice_bob_meeting) fmt_Ymd_HM
                = Some (mk_datetime 2025 6 10 14 0)"
      by (simp add: alice_bob_meeting_def demo_meeting_def str_eval)
    have en: "plus_timedelta (mk_datetime 2025 6 10 14 0) 0 60 = Some (mk_datetime 2025 6 10 15 0)"
      by (simp add: dt_eval)
    have sp: "split_participants (m_participants alice_bob_meeting) [] [] = ([''alice@example.com''], [''Bob''])"
      by (simp add: alice_bob_meeting_def is_email_def py_strip_def is_space_def Let_def)
    have d: "m_description alice_bob_meeting = []" by (simp add: alice_bob_meeting_def)
    have ps: "py_strip ([CHR 0x0A, CHR 0x0A] @ ''Participants: '' @ ''Bob'') = ''Participants: Bob''"
      by (simp add: py_strip_def is_space_def)
    show ?thesis
      using ps st en sp d by (simp add: convert_to_google_event_def Let_def)
  qed
  from p k ex show ?thesis by simp
qed

lemma convert_returns:
  assumes "strptime (m_date m @ '' '' @ m_time m) fmt_Ymd_HM = Some s" "plus_timedelta s 0 60 = Some s'"
  shows "\<exists>b. convert_to_google_event e m = Inr b"
  using assms by (simp add: convert_to_google_event_def Let_def split: prod.split)

lemma demo_meeting_end:
  "plus_timedelta (mk_datetime 2025 6 10 14 0) 0 60 = Some (mk_datetime 2025 6 10 15 0)"
  by (simp add: dt_eval)

theorem participants_partition_counterexample:
  "(case convert_to_google_event quiet_env padded_meeting of
      Inr b \<Rightarrow> b_attendees b = Some [''a@b.c'']
               \<and> claimed_attendees (m_participants padded_meeting) = Some ['' a@b.c'']
               \<and> b_attendees b \<noteq> claimed_attendees (m_participants padded_meeting)
    | Inl x \<Rightarrow> False)"
proof -
  have st: "strptime (m_date padded_meeting @ '' '' @ m_time padded_meeting) fmt_Ymd_HM
                = Some (mk_datetime 2025 6 10 14 0)"
    by (simp add: padded_meeting_def demo_meeting_def str_eval)
  have sp: "split_participants (m_participants padded_meeting) [] [] = ([''a@b.c''], [])"
    by (simp add: padded_meeting_def is_email_def py_strip_def is_space_def Let_def)
  have cl: "claimed_attendees (m_participants padded_meeting) = Some ['' a@b.c'']"
    by (simp add: claimed_attendees_def padded_meeting_def is_email_def)
  show ?thesis
    using st demo_meeting_end sp cl by (simp add: convert_to_google_event_def Let_def)
qed

theorem participants_partition_witness:
  "\<exists>b. convert_to_google_event quiet_env demo_meeting = Inr b
       \<and> b_attendees b = None
       \<and> b_description b = ''daily'' @ [CHR 0x0A, CHR 0x0A] @ ''Participants: alice''"
proof -
  have st: "strptime (m_date demo_meeting @ '' '' @ m_time demo_meeting) fmt_Ymd_HM
                = Some (mk_datetime 2025 6 10 14 0)"
    by (simp add: demo_meeting_def str_eval)
  from convert_returns[OF st demo_meeting_end]
  obtain b where b: "convert_to_google_event quiet_env demo_meeting = Inr b" by blast
  have e: "email_participants (m_participants demo_meeting) = []"
    by (simp add: email_participants_def demo_meeting_def is_email_def)
  have o: "other_participants (m_participants demo_meeting) = [''alice'']"
    by (simp add: other_participants_def demo_meeting_def is_email_def py_strip_def is_space_def)
  have d: "m_description demo_meeting = ''daily''" by (simp add: demo_meeting_def)
  from participants_partition[OF b]
  have "b_attendees b = None
       \<and> b_description b = ''daily'' @ [CHR 0x0A, CHR 0x0A] @ ''Participants: alice''"
    by (simp add: e o d participants_marker_def)
  with b show ?thesis by blast
qed

section \<open>Supplied and empty values in an update\<close>

lemma truthy_empty: "truthy (Some []) = False" "truthy None = False"
  by (simp_all add: truthy_def)

lemma merge_empty_date:
  "merge_fields f title (Some []) time ps desc = merge_fields f title None time ps desc"
  unfolding merge_fields_def truthy_empty if_False ..

lemma merge_empty_time:
  "merge_fields f title date (Some []) ps desc = merge_fields f title date None ps desc"
  unfolding merge_fields_def truthy_empty if_False ..

lemma update_empty_title:
  "update_meeting e meeting_id (Some []) date time ps desc
     = update_meeting e meeting_id None date time ps desc"
  unfolding update_meeting_def merge_empty_title ..

lemma update_empty_date:
  "update_meeting e meeting_id title (Some []) time ps desc
     = update_meeting e meeting_id title None time ps desc"
  unfolding update_meeting_def merge_empty_date truthy_empty ..

lemma update_empty_time:
  "update_meeting e meeting_id title date (Some []) ps desc
     = update_meeting e meeting_id title date None ps desc"
  unfolding update_meeting_def merge_empty_time truthy_empty ..

lemma update_empty_participants:
  "update_meeting e meeting_id title date time (Some []) desc
     = update_meeting e meeting_id title date time None desc"
  unfolding update_meeting_def merge_empty_participants ..

lemma merged_explicit:
  assumes "merged fetched title date time ps desc m"
  shows "m_title m = (case title of Some (c # cs) \<Rightarrow> c # cs | _ \<Rightarrow> m_title fetched)"
    and "m_participants m = (case ps of Some (p # ps') \<Rightarrow> p # ps' | _ \<Rightarrow> m_participants fetched)"
    and "m_description m = (case desc of Some d \<Rightarrow> d | None \<Rightarrow> m_description fetched)"
    and "(case date of
            Some (c # cs) \<Rightarrow> map_option strftime_date (parse_date (c # cs)) = Some (m_date m)
          | _ \<Rightarrow> m_date m = m_date fetched)"
    and "(case time of
            Some (c # cs) \<Rightarrow> parse_time (c # cs) = Some (m_time m)
          | _ \<Rightarrow> m_time m = m_time fetched)"
  using assms
  by (auto simp: merged_def truthy_def split: option.splits list.splits if_splits)

lemma convert_summary:
  "convert_to_google_event e m = Inr body \<Longrightarrow> b_summary body = m_title m"
  by (auto simp add: convert_to_google_event_def Let_def split: option.splits prod.splits)

lemma update_event_true:
  "update_event e m g = Inr True
   \<Longrightarrow> \<exists>body. convert_to_google_event e m = Inr body \<and> events_update e g body = Returns ()"
  by (auto simp add: update_event_def split: if_splits sum.splits api.splits)

lemma update_returned_sent:
  assumes "fetched_meeting e meeting_id = Some f" "truthy (m_google_event_id f)"
    and "r_meeting (fst (update_meeting e meeting_id title date time ps desc)) = Some m"
  shows "update_event e m (the (m_google_event_id f)) = Inr True"
proof (cases "merge_fields f title date time ps desc")
  case (Inl r)
  then have "r_meeting r = None"
    unfolding merge_fields_def Let_def
    by (auto simp: failure_def split: if_splits option.splits sum.splits)
  with assms Inl show ?thesis
    by (simp add: update_meeting_resolved Let_def)
next
  case (Inr m')
  with assms show ?thesis
    by (auto simp add: update_meeting_resolved Let_def failure_def
          split: option.splits sum.splits if_splits prod.splits)
qed

text \<open>
  Claim C10, as amended. In \<open>update_meeting\<close> a field is supplied when it is true in Python
  for \<open>title\<close>, \<open>date\<close>, \<open>time\<close> and \<open>participants\<close>, and when it is not \<open>None\<close> for
  \<open>description\<close>. An empty title, date, time or participants list is neither applied nor
  rejected: the call is the call without that argument. For a meeting that is resolved,
  with a remote id, the meeting handed to \<open>update_event\<close>, and the meeting returned, have
  the supplied title (participants, date, time) when it is non-empty and the fetched one
  otherwise, and the supplied description whenever one is given, the empty one included,
  the fetched one only for \<open>None\<close>. What reaches the provider is the body converted from
  that meeting: when the update is reported as done, the provider was sent and accepted a
  body whose summary is that title and whose description is that description, followed by
  the \<open>Participants: \<close> text when the meeting has participants that are not emails. So
  an empty description empties the description of the meeting, and the description sent
  to the provider is empty only for a meeting without such participants.
\<close>

theorem update_supplied_fields:
  "update_meeting e meeting_id (Some []) date time ps desc
     = update_meeting e meeting_id None date time ps desc
   \<and> update_meeting e meeting_id title (Some []) time ps desc
     = update_meeting e meeting_id title None time ps desc
   \<and> update_meeting e meeting_id title date (Some []) ps desc
     = update_meeting e meeting_id title date None ps desc
   \<and> update_meeting e meeting_id title date time (Some []) desc
     = update_meeting e meeting_id title date time None desc
   \<and> (fetched_meeting e meeting_id = Some fetched \<and> truthy (m_google_event_id fetched)
      \<longrightarrow> (\<forall>m g. Update_event m g \<in> set (snd (update_meeting e meeting_id title date time ps desc))
                   \<or> r_meeting (fst (update_meeting e meeting_id title date time ps desc)) = Some m
             \<longrightarrow> m_title m = (case title of Some (c # cs) \<Rightarrow> c # cs | _ \<Rightarrow> m_title fetched)
                 \<and> m_participants m
                     = (case ps of Some (p # ps') \<Rightarrow> p # ps' | _ \<Rightarrow> m_participants fetched)
                 \<and> m_description m
                     = (case desc of Some d \<Rightarrow> d | None \<Rightarrow> m_description fetched)
                 \<and> (case date of
                       Some (c # cs) \<Rightarrow>
                         map_option strftime_date (parse_date (c # cs)) = Some (m_date m)
                     | _ \<Rightarrow> m_date m = m_date fetched)
                 \<and> (case time of
                       Some (c # cs) \<Rightarrow> parse_time (c # cs) = Some (m_time m)
                     | _ \<Rightarrow> m_time m = m_time fetched)
                 \<and> (\<forall>body. convert_to_google_event e m = Inr body
                       \<longrightarrow> b_summary body = m_title m
                           \<and> b_description body =
                               (if other_participants (m_participants m) = [] then m_description m
                                else if m_description m \<noteq> []
                                then m_description m @ [CHR 0x0A, CHR 0x0A] @ participants_marker
                                       @ py_join '', '' (other_participants (m_participants m))
                                else py_strip ([CHR 0x0A, CHR 0x0A] @ participants_marker
                                       @ py_join '', '' (other_participants (m_participants m))))))
        \<and> (\<forall>m. r_meeting (fst (update_meeting e meeting_id title date time ps desc)) = Some m
             \<longrightarrow> (\<exists>body. convert_to_google_event e m = Inr body
                     \<and> events_update e (the (m_google_event_id fetched)) body = Returns ())))"
proof -
  have c: "\<And>m g. fetched_meeting e meeting_id = Some fetched \<Longrightarrow> truthy (m_google_event_id fetched) \<Longrightarrow>
      Update_event m g \<in> set (snd (update_meeting e meeting_id title date time ps desc))
        \<or> r_meeting (fst (update_meeting e meeting_id title date time ps desc)) = Some m
      \<Longrightarrow> merged fetched title date time ps desc m"
    by (metis update_calls update_returned merge_fields_merged)
  have s: "\<And>m. fetched_meeting e meeting_id = Some fetched \<Longrightarrow> truthy (m_google_event_id fetched) \<Longrightarrow>
      r_meeting (fst (update_meeting e meeting_id title date time ps desc)) = Some m
      \<Longrightarrow> \<exists>body. convert_to_google_event e m = Inr body
                     \<and> events_update e (the (m_google_event_id fetched)) body = Returns ()"
    using update_returned_sent update_event_true by blast
  have b: "\<And>m body. convert_to_google_event e m = Inr body
      \<Longrightarrow> b_summary body = m_title m
          \<and> b_description body =
              (if other_participants (m_participants m) = [] then m_description m
               else if m_description m \<noteq> []
               then m_description m @ [CHR 0x0A, CHR 0x0A] @ participants_marker
                      @ py_join '', '' (other_participants (m_participants m))
               else py_strip ([CHR 0x0A, CHR 0x0A] @ participants_marker
                      @ py_join '', '' (other_participants (m_participants m))))"
    using convert_summary convert_parts(2) by blast
  have f: "fetched_meeting e meeting_id = Some fetched \<and> truthy (m_google_event_id fetched)
      \<longrightarrow> (\<forall>m g. Update_event m g \<in> set (snd (update_meeting e meeting_id title date time ps desc))
                   \<or> r_meeting (fst (update_meeting e meeting_id title date time ps desc)) = Some m
             \<longrightarrow> m_title m = (case title of Some (c # cs) \<Rightarrow> c # cs | _ \<Rightarrow> m_title fetched)
                 \<and> m_participants m
                     = (case ps of Some (p # ps') \<Rightarrow> p # ps' | _ \<Rightarrow> m_participants fetched)
                 \<and> m_description m
                     = (case desc of Some d \<Rightarrow> d | None \<Rightarrow> m_description fetched)
                 \<and> (case date of
                       Some (c # cs) \<Rightarrow>
                         map_option strftime_date (parse_date (c # cs)) = Some (m_date m)
                     | _ \<Rightarrow> m_date m = m_date fetched)
                 \<and> (case time of
                       Some (c # cs) \<Rightarrow> parse_time (c # cs) = Some (m_time m)
                     | _ \<Rightarrow> m_time m = m_time fetched)
                 \<and> (\<forall>body. convert_to_google_event e m = Inr body
                       \<longrightarrow> b_summary body = m_title m
                           \<and> b_description body =
                               (if other_participants (m_participants m) = [] then m_description m
                                else if m_description m \<noteq> []
                                then m_description m @ [CHR 0x0A, CHR 0x0A] @ participants_marker
                                       @ py_join '', '' (other_participants (m_participants m))
                                else py_strip ([CHR 0x0A, CHR 0x0A] @ participants_marker
                                       @ py_join '', '' (other_participants (m_participants m))))))"
  proof (intro impI allI, elim conjE)
    fix m g
    assume h: "fetched_meeting e meeting_id = Some fetched" "truthy (m_google_event_id fetched)"
      and u: "Update_event m g \<in> set (snd (update_meeting e meeting_id title date time ps desc))
                   \<or> r_meeting (fst (update_meeting e meeting_id title date time ps desc)) = Some m"
    note x = merged_explicit[OF c[OF h u]]
    from x b show "m_title m = (case title of Some (c # cs) \<Rightarrow> c # cs | _ \<Rightarrow> m_title fetched)
                 \<and> m_participants m
                     = (case ps of Some (p # ps') \<Rightarrow> p # ps' | _ \<Rightarrow> m_participants fetched)
                 \<and> m_description m
                     = (case desc of Some d \<Rightarrow> d | None \<Rightarrow> m_description fetched)
                 \<and> (case date of
                       Some (c # cs) \<Rightarrow>
                         map_option strftime_date (parse_date (c # cs)) = Some (m_date m)
                     | _ \<Rightarrow> m_date m = m_date fetched)
                 \<and> (case time of
                       Some (c # cs) \<Rightarrow> parse_time (c # cs) = Some (m_time m)
                     | _ \<Rightarrow> m_time m = m_time fetched)
                 \<and> (\<forall>body. convert_to_google_event e m = Inr body
                       \<longrightarrow> b_summary body = m_title m
                           \<and> b_description body =
                               (if other_participants (m_participants m) = [] then m_description m
                                else if m_description m \<noteq> []
                                then m_description m @ [CHR 0x0A, CHR 0x0A] @ participants_marker
                                       @ py_join '', '' (other_participants (m_participants m))
                                else py_strip ([CHR 0x0A, CHR 0x0A] @ participants_marker
                                       @ py_join '', '' (other_participants (m_participants m)))))"
      by blast
  qed
  from s have s': "fetched_meeting e meeting_id = Some fetched \<and> truthy (m_google_event_id fetched)
      \<longrightarrow> (\<forall>m. r_meeting (fst (update_meeting e meeting_id title date time ps desc)) = Some m
             \<longrightarrow> (\<exists>body. convert_to_google_event e m = Inr body
                     \<and> events_update e (the (m_google_event_id fetched)) body = Returns ()))"
    by blast
  from f s' have fs: "fetched_meeting e meeting_id = Some fetched \<and> truthy (m_google_event_id fetched)
      \<longrightarrow> (\<forall>m g. Update_event m g \<in> set (snd (update_meeting e meeting_id title date time ps desc))
                   \<or> r_meeting (fst (update_meeting e meeting_id title date time ps desc)) = Some m
             \<longrightarrow> m_title m = (case title of Some (c # cs) \<Rightarrow> c # cs | _ \<Rightarrow> m_title fetched)
                 \<and> m_participants m
                     = (case ps of Some (p # ps') \<Rightarrow> p # ps' | _ \<Rightarrow> m_participants fetched)
                 \<and> m_description m
                     = (case desc of Some d \<Rightarrow> d | None \<Rightarrow> m_description fetched)
                 \<and> (case date of
                       Some (c # cs) \<Rightarrow>
                         map_option strftime_date (parse_date (c # cs)) = Some (m_date m)
                     | _ \<Rightarrow> m_date m = m_date fetched)
                 \<and> (case time of
                       Some (c # cs) \<Rightarrow> parse_time (c # cs) = Some (m_time m)
                     | _ \<Rightarrow> m_time m = m_time fetched)
                 \<and> (\<forall>body. convert_to_google_event e m = Inr body
                       \<longrightarrow> b_summary body = m_title m
                           \<and> b_description body =
                               (if other_participants (m_participants m) = [] then m_description m
                                else if m_description m \<noteq> []
                                then m_description m @ [CHR 0x0A, CHR 0x0A] @ participants_marker
                                       @ py_join '', '' (other_participants (m_participants m))
                                else py_strip ([CHR 0x0A, CHR 0x0A] @ participants_marker
                                       @ py_join '', '' (other_participants (m_participants m))))))
        \<and> (\<forall>m. r_meeting (fst (update_meeting e meeting_id title date time ps desc)) = Some m
             \<longrightarrow> (\<exists>body. convert_to_google_event e m = Inr body
                     \<and> events_update e (the (m_google_event_id fetched)) body = Returns ()))"
    by blast
  show ?thesis
    by (intro conjI update_empty_title update_empty_date update_empty_time
          update_empty_participants fs)
qed

lemma strip_marker_alice:
  "py_strip ([CHR 0x0A, CHR 0x0A] @ ''Participants: '' @ ''alice'') = ''Participants: alice''"
  by (simp add: py_strip_def is_space_def)

theorem update_supplied_fields_witness:
  "fetched_meeting busy_env ''g1'' = Some demo_meeting
   \<and> truthy (m_google_event_id demo_meeting)
   \<and> update_meeting busy_env ''g1'' (Some ''Sync'') (Some []) (Some []) (Some []) (Some []) =
       (\<lparr>success = True, error = None,
         message = Some (''Successfully updated meeting '' @ [CHR 0x27] @ ''Sync'' @ [CHR 0x27]
                          @ '' in Google Calendar '' @ check_mark),
         r_meeting = Some (demo_meeting\<lparr>m_title := ''Sync'', m_description := []\<rparr>),
         r_meetings = None, r_count = None, r_deleted_meeting = None\<rparr>,
        [Get_events demo_now (mk_datetime 2025 7 1 9 0),
         Update_event (demo_meeting\<lparr>m_title := ''Sync'', m_description := []\<rparr>) ''g1''])
   \<and> m_title demo_meeting = ''Standup'' \<and> m_description demo_meeting = ''daily''
   \<and> m_participants (demo_meeting\<lparr>m_title := ''Sync'', m_description := []\<rparr>) = [''alice'']
   \<and> m_date (demo_meeting\<lparr>m_title := ''Sync'', m_description := []\<rparr>) = ''2025-06-10''
   \<and> m_time (demo_meeting\<lparr>m_title := ''Sync'', m_description := []\<rparr>) = ''14:00''
   \<and> (\<exists>body. convert_to_google_event busy_env (demo_meeting\<lparr>m_title := ''Sync'', m_description := []\<rparr>)
                 = Inr body
              \<and> events_update busy_env ''g1'' body = Returns ()
              \<and> b_summary body = ''Sync''
              \<and> b_description body = ''Participants: alice'')"
proof -
  let ?m = "demo_meeting\<lparr>m_title := ''Sync'', m_description := []\<rparr>"
  have mf: "merge_fields demo_meeting (Some ''Sync'') (Some []) (Some []) (Some []) (Some []) = Inr ?m"
    by (simp add: merge_fields_def truthy_def)
  have dt: "m_date ?m = ''2025-06-10''" "m_time ?m = ''14:00''" "m_title ?m = ''Sync''"
    "the (m_google_event_id demo_meeting) = ''g1''" "m_google_event_id demo_meeting = Some ''g1''"
    "m_title demo_meeting = ''Standup''" "m_description demo_meeting = ''daily''"
    "m_participants demo_meeting = [''alice'']" "m_date demo_meeting = ''2025-06-10''"
    "m_time demo_meeting = ''14:00''"
    by (simp_all add: demo_meeting_def)
  have s: "strptime (m_date ?m @ '' '' @ m_time ?m) fmt_Ymd_HM = Some (mk_datetime 2025 6 10 14 0)"
    unfolding dt by (simp add: str_eval)
  have u: "update_meeting busy_env ''g1'' (Some ''Sync'') (Some []) (Some []) (Some []) (Some []) =
       (\<lparr>success = True, error = None,
         message = Some (''Successfully updated meeting '' @ [CHR 0x27] @ ''Sync'' @ [CHR 0x27]
                          @ '' in Google Calendar '' @ check_mark),
         r_meeting = Some ?m, r_meetings = None, r_count = None,
         r_deleted_meeting = None\<rparr>,
        [Get_events demo_now (mk_datetime 2025 7 1 9 0), Update_event ?m ''g1''])"
    by (simp add: update_meeting_resolved[OF busy_fetched busy_gid] mf busy_details truthy_def
          dt busy_update_event[OF s demo_meeting_end] del: append.simps)
  have r: "r_meeting (fst (update_meeting busy_env ''g1'' (Some ''Sync'') (Some []) (Some []) (Some []) (Some [])))
             = Some ?m"
    by (simp add: u)
  have o: "other_participants (m_participants demo_meeting) = [''alice'']"
    by (simp add: other_participants_def demo_meeting_def is_email_def py_strip_def is_space_def)
  note t = update_supplied_fields[where e = busy_env and meeting_id = "''g1''" and fetched = demo_meeting
      and title = "Some ''Sync''" and date = "Some []" and time = "Some []" and ps = "Some []"
      and desc = "Some []"]
  from t busy_fetched busy_gid r
  have f: "m_title ?m = ''Sync'' \<and> m_participants ?m = m_participants demo_meeting
        \<and> m_description ?m = [] \<and> m_date ?m = m_date demo_meeting \<and> m_time ?m = m_time demo_meeting"
    by simp
  from t busy_fetched busy_gid r
  obtain body where b: "convert_to_google_event busy_env ?m = Inr body"
      "events_update busy_env (the (m_google_event_id demo_meeting)) body = Returns ()"
    by blast
  from t busy_fetched busy_gid r b(1)
  have "b_summary body = m_title ?m
        \<and> b_description body =
             (if other_participants (m_participants ?m) = [] then m_description ?m
              else if m_description ?m \<noteq> []
              then m_description ?m @ [CHR 0x0A, CHR 0x0A] @ participants_marker
                     @ py_join '', '' (other_participants (m_participants ?m))
              else py_strip ([CHR 0x0A, CHR 0x0A] @ participants_marker
                     @ py_join '', '' (other_participants (m_participants ?m))))"
    by blast
  then have d: "b_summary body = ''Sync''" "b_description body = ''Participants: alice''"
    using strip_marker_alice by (simp_all add: o participants_marker_def)
  from b d dt(4) have "\<exists>body. convert_to_google_event busy_env ?m = Inr body
              \<and> events_update busy_env ''g1'' body = Returns ()
              \<and> b_summary body = ''Sync''
              \<and> b_description body = ''Participants: alice''"
    by auto
  with busy_fetched busy_gid u f dt(6,7,8,9,10) show ?thesis by simp
qed

theorem update_supplied_fields_counterexample:
  "fetched_meeting busy_env ''g1'' = Some demo_meeting
   \<and> m_description demo_meeting = ''daily''
   \<and> update_meeting busy_env ''g1'' None None None None (Some []) =
       (\<lparr>success = True, error = None,
         message = Some (''Successfully updated meeting '' @ [CHR 0x27] @ ''Standup'' @ [CHR 0x27]
                          @ '' in Google Calendar '' @ check_mark),
         r_meeting = Some (demo_meeting\<lparr>m_description := []\<rparr>),
         r_meetings = None, r_count = None, r_deleted_meeting = None\<rparr>,
        [Get_events demo_now (mk_datetime 2025 7 1 9 0),
         Update_event (demo_meeting\<lparr>m_description := []\<rparr>) ''g1''])
   \<and> (case convert_to_google_event busy_env (demo_meeting\<lparr>m_description := []\<rparr>) of
         Inr body \<Rightarrow> events_update busy_env ''g1'' body = Returns ()
                     \<and> b_description body = ''Participants: alice''
                     \<and> b_description body \<noteq> []
       | Inl x \<Rightarrow> False)"
proof -
  let ?m = "demo_meeting\<lparr>m_description := []\<rparr>"
  have mf: "merge_fields demo_meeting None None None None (Some []) = Inr ?m"
    by (simp add: merge_fields_def truthy_def)
  have dt: "m_date ?m = ''2025-06-10''" "m_time ?m = ''14:00''" "m_title ?m = ''Standup''"
    "the (m_google_event_id demo_meeting) = ''g1''" "m_google_event_id demo_meeting = Some ''g1''"
    "m_description demo_meeting = ''daily''" "m_description ?m = []"
    by (simp_all add: demo_meeting_def)
  have s: "strptime (m_date ?m @ '' '' @ m_time ?m) fmt_Ymd_HM = Some (mk_datetime 2025 6 10 14 0)"
    unfolding dt by (simp add: str_eval)
  have u: "update_meeting busy_env ''g1'' None None None None (Some []) =
       (\<lparr>success = True, error = None,
         message = Some (''Successfully updated meeting '' @ [CHR 0x27] @ ''Standup'' @ [CHR 0x27]
                          @ '' in Google Calendar '' @ check_mark),
         r_meeting = Some ?m, r_meetings = None, r_count = None,
         r_deleted_meeting = None\<rparr>,
        [Get_events demo_now (mk_datetime 2025 7 1 9 0), Update_event ?m ''g1''])"
    by (simp add: update_meeting_resolved[OF busy_fetched busy_gid] mf busy_details truthy_def
          dt busy_update_event[OF s demo_meeting_end] del: append.simps)
  have sp: "split_participants (m_participants ?m) [] [] = ([], [''alice''])"
    by (simp add: demo_meeting_def is_email_def py_strip_def is_space_def Let_def)
  have c: "(case convert_to_google_event busy_env ?m of
         Inr body \<Rightarrow> events_update busy_env ''g1'' body = Returns ()
                     \<and> b_description body = ''Participants: alice''
                     \<and> b_description body \<noteq> []
       | Inl x \<Rightarrow> False)"
    using strip_marker_alice s demo_meeting_end sp dt(7)
    by (simp add: convert_to_google_event_def Let_def busy_env_def quiet_env_def)
  from busy_fetched dt(6) u c show ?thesis by simp
qed

section \<open>Round trip through the provider\<close>

lemma digit_char_not [simp]:
  "digit_char k \<noteq> CHR ''Z''" "digit_char k \<noteq> CHR ''-''" "digit_char k \<noteq> CHR ''+''"
  "digit_char k \<noteq> CHR ''T''" "digit_char k \<noteq> CHR '':''"
proof -
  have "k mod 10 < 10" by simp
  from digit_cases[OF this]
  show "digit_char k \<noteq> CHR ''Z''" "digit_char k \<noteq> CHR ''-''" "digit_char k \<noteq> CHR ''+''"
    "digit_char k \<noteq> CHR ''T''" "digit_char k \<noteq> CHR '':''"
    by (auto simp: digit_char_def)
qed

lemma py_int_two: "n < 100 \<Longrightarrow> py_int [digit_char (n div 10), digit_char n] = n"
  using py_int_zpad2[of n] by (simp add: zpad2)

lemma py_int_four:
  "n < 10000 \<Longrightarrow>
   py_int [digit_char (n div 1000), digit_char (n div 100), digit_char (n div 10), digit_char n] = n"
  using digits4[of n] by simp

lemma isoformat_shape:
  assumes "y < 10000" "mo < 100" "d < 100" "h < 100" "mi < 100"
  shows "isoformat_utc (mk_datetime y mo d h mi) =
     [digit_char (y div 1000), digit_char (y div 100), digit_char (y div 10), digit_char y, CHR ''-'',
      digit_char (mo div 10), digit_char mo, CHR ''-'', digit_char (d div 10), digit_char d, CHR ''T'',
      digit_char (h div 10), digit_char h, CHR '':'', digit_char (mi div 10), digit_char mi, CHR '':'',
      CHR ''0'', CHR ''0'', CHR ''+'', CHR ''0'', CHR ''0'', CHR '':'', CHR ''0'', CHR ''0'']"
  using assms
  by (simp add: isoformat_utc_def strftime_date_def strftime_time_def mk_datetime_def zpad4 zpad2
        digit_char_def[of 0])

lemma fromisoformat_roundtrip:
  assumes v: "valid_date y mo d" and h: "h \<le> 23" and mi: "mi \<le> 59"
  shows "fromisoformat (replace_Z (isoformat_utc (mk_datetime y mo d h mi))) = Some (mk_datetime y mo d h mi)"
proof -
  from v have b: "y < 10000" "mo < 100" "d < 100"
    by (auto simp: valid_date_def days_in_month_def split: if_splits)
  from h mi have b2: "h < 100" "mi < 100" by simp_all
  have z: "digit_val CHR ''0'' = 0" "is_digit CHR ''0''"
    by (simp_all add: digit_val_def is_digit_def)
  show ?thesis
    unfolding isoformat_shape[OF b b2]
    using v h mi b b2
    by (simp add: replace_Z_def fromisoformat_def parse_hh_mm_ss_ff_def all_digits_def Let_def
          py_int_two digits4 z mk_datetime_def)
qed

lemma only_reads_get: "only_reads calls \<Longrightarrow> c \<in> set calls \<Longrightarrow> \<exists>a b. c = Get_events a b"
  by (cases c) (auto simp: only_reads_def list_all_iff)

lemma strptime_formatted:
  assumes "valid_date (year pd) (month pd) (day pd)" "h \<le> 23" "mi \<le> 59"
  shows "strptime (strftime_date pd @ '' '' @ hh_mm h mi) fmt_Ymd_HM
           = Some (mk_datetime (year pd) (month pd) (day pd) h mi)"
  using strptime_roundtrip[OF assms] by (simp add: strftime_date_def hh_mm_def)

lemma strftime_mk:
  "strftime_date (mk_datetime y mo d h mi) = zpad 4 y @ ''-'' @ zpad 2 mo @ ''-'' @ zpad 2 d"
  "strftime_time (mk_datetime y mo d h mi) = hh_mm h mi"
  by (simp_all add: strftime_date_def strftime_time_def hh_mm_def mk_datetime_def)

lemma schedule_success:
  assumes "schedule_meeting e title date time ps desc = (r, calls)" "success r"
  shows "\<exists>pd pt gid.
           title \<noteq> [] \<and> parse_date date = Some pd \<and> parse_time time = Some pt
           \<and> create_event e (new_meeting e title (strftime_date pd) pt ps desc) = Inr (Some gid)
           \<and> gid \<noteq> []
           \<and> r_meeting r = Some ((new_meeting e title (strftime_date pd) pt ps desc)
                                   \<lparr>m_google_event_id := Some gid, m_synced_to_google := True\<rparr>)
           \<and> (\<exists>calls1. only_reads calls1
                 \<and> calls = calls1 @ [Create_event (new_meeting e title (strftime_date pd) pt ps desc)])"
proof -
  from assms have t: "title \<noteq> []" "date \<noteq> []" "time \<noteq> []"
    by (auto simp: schedule_meeting_def Let_def failure_def split: if_splits)
  from assms t obtain pd where pd: "parse_date date = Some pd"
    by (cases "parse_date date") (auto simp: schedule_meeting_def Let_def failure_def)
  from assms t pd obtain pt where pt: "parse_time time = Some pt"
    by (cases "parse_time time") (auto simp: schedule_meeting_def Let_def failure_def)
  from assms t pd pt have fu: "is_future_datetime (now e) (strftime_date pd) pt"
    by (auto simp: schedule_meeting_def Let_def failure_def split: if_splits)
  obtain conflict calls1 where c: "(if enable_conflict_detection e
                 then check_time_conflict e (strftime_date pd) pt None
                 else (None, [])) = (conflict, calls1)"
    by (cases "(if enable_conflict_detection e
                 then check_time_conflict e (strftime_date pd) pt None
                 else (None, []))") auto
  then have ro: "only_reads calls1"
    using check_time_conflict_reads[of e "strftime_date pd" pt None]
    by (auto simp: only_reads_def split: if_splits)
  from assms t pd pt fu c have cn: "conflict = None"
    by (cases conflict) (auto simp: schedule_meeting_def Let_def failure_def)
  let ?m = "new_meeting e title (strftime_date pd) pt ps desc"
  from assms t pd pt fu c cn
  have "\<exists>gid. create_event e ?m = Inr (Some gid) \<and> gid \<noteq> []
           \<and> r_meeting r = Some (?m\<lparr>m_google_event_id := Some gid, m_synced_to_google := True\<rparr>)
           \<and> calls = calls1 @ [Create_event ?m]"
    by (cases "create_event e ?m")
       (auto simp: schedule_meeting_def new_meeting_def Let_def failure_def truthy_def
             split: if_splits option.splits)
  with t pd pt ro show ?thesis by blast
qed

lemma convert_body_fields:
  assumes "convert_to_google_event e m = Inr body"
    and "strptime (m_date m @ '' '' @ m_time m) fmt_Ymd_HM = Some start"
  shows "b_summary body = m_title m" "b_start_dateTime body = isoformat_utc start"
    "b_local_id body = m_id m"
  using assms
  by (auto simp add: convert_to_google_event_def Let_def split: option.splits prod.splits)

lemma attendee_name_email:
  "attendee_name \<lparr>a_displayName = None, a_email = Some a\<rparr> = local_part a"
  by (simp add: attendee_name_def local_part_def)

lemma T_in_isoformat: "CHR ''T'' \<in> set (isoformat_utc t)" "isoformat_utc t \<noteq> []"
  by (simp_all add: isoformat_utc_def)

lemma or_else_simps [simp]: "or_else (Some x) d = x" "or_else None d = d"
  by (simp_all add: or_else_def)

lemma convert_from_echo:
  assumes c: "convert_to_google_event e m = Inr body"
    and d: "m_date m = strftime_date pd" "m_time m = hh_mm h mi"
    and v: "valid_date (year pd) (month pd) (day pd)" "h \<le> 23" "mi \<le> 59"
  shows "\<exists>m'. convert_from_google_event (echo_event body gid link hangout) = Some m'
           \<and> m_title m' = m_title m \<and> m_date m' = m_date m \<and> m_time m' = m_time m
           \<and> m_participants m' = map local_part (email_participants (m_participants m))
           \<and> m_google_event_id m' = Some gid
           \<and> m_id m' = py_or (m_id m) (Some gid)"
proof -
  let ?start = "mk_datetime (year pd) (month pd) (day pd) h mi"
  have s: "strptime (m_date m @ '' '' @ m_time m) fmt_Ymd_HM = Some ?start"
    unfolding d by (rule strptime_formatted[OF v])
  note f = convert_body_fields[OF c s]
  have r: "fromisoformat (replace_Z (isoformat_utc ?start)) = Some ?start"
    by (rule fromisoformat_roundtrip[OF v])
  have a: "or_else (b_attendees body) [] = email_participants (m_participants m)"
    using convert_parts(1)[OF c] by (simp add: or_else_def)
  have sd: "strftime_date ?start = strftime_date pd"
    by (simp add: strftime_date_def mk_datetime_def)
  show ?thesis
    using r
    by (simp add: convert_from_google_event_def echo_event_def f T_in_isoformat a d sd strftime_mk(2)
          comp_def attendee_name_email)
qed

lemma map_filter_mem: "x \<in> set xs \<Longrightarrow> f x = Some y \<Longrightarrow> y \<in> set (List.map_filter f xs)"
  by (induction xs) (auto simp: List.map_filter_simps split: option.splits)

lemma details_by_id:
  assumes "is_enabled e" "plus_timedelta (now e) 30 0 = Some time_max"
    and "events_list e (now e) time_max = Returns items"
    and "ev \<in> set items" "convert_from_google_event ev = Some m"
    and "meeting_id \<noteq> []" "m_google_event_id m = Some meeting_id \<or> m_id m = Some meeting_id"
  shows "success (fst (get_meeting_details e None None None (Some meeting_id)))
         \<and> m \<in> set (the (r_meetings (fst (get_meeting_details e None None None (Some meeting_id)))))"
proof -
  have g: "get_events e (now e) time_max = Inr (List.map_filter convert_from_google_event items)"
    using assms(1,3) by (simp add: get_events_def)
  have mem: "m \<in> set (List.map_filter convert_from_google_event items)"
    using assms(4,5) by (rule map_filter_mem)
  then have ne: "List.map_filter convert_from_google_event items \<noteq> []" by auto
  show ?thesis
    using assms(2,6,7) g mem ne
    by (simp add: get_meeting_details_def truthy_def Let_def)
qed

lemma email_participants_filter:
  "email_participants (filter (\<lambda>p. p \<noteq> [] \<and> py_strip p \<noteq> []) xs) = email_participants xs"
proof -
  have "\<And>p. is_email p \<Longrightarrow> py_strip p \<noteq> []"
    using is_email_strip is_email_def by (metis empty_iff list.set(1))
  then have "filter (\<lambda>p. p \<noteq> [] \<and> is_email p) (filter (\<lambda>p. p \<noteq> [] \<and> py_strip p \<noteq> []) xs)
        = filter (\<lambda>p. p \<noteq> [] \<and> is_email p) xs"
    by (induction xs) auto
  then show ?thesis by (simp add: email_participants_def)
qed


lemma alice_convert: "convert_to_google_event create_env alice_meeting = Inr alice_body"
proof -
  have st: "strptime (m_date alice_meeting @ '' '' @ m_time alice_meeting) fmt_Ymd_HM
                = Some (mk_datetime 2025 6 10 14 0)"
    by (simp add: alice_meeting_def new_meeting_def str_eval)
  have sp: "split_participants (m_participants alice_meeting) [] [] = ([''alice@example.com''], [])"
    by (simp add: alice_meeting_def new_meeting_def is_email_def py_strip_def is_space_def Let_def)
  have i1: "isoformat_utc (mk_datetime 2025 6 10 14 0) = ''2025-06-10T14:00:00+00:00''"
    and i2: "isoformat_utc (mk_datetime 2025 6 10 15 0) = ''2025-06-10T15:00:00+00:00''"
    by (simp_all add: isoformat_utc_def str_eval)
  have f: "m_title alice_meeting = ''Standup''" "m_description alice_meeting = ''daily''"
    "m_id alice_meeting = Some ''abc12345''" "default_reminder_minutes create_env = 15"
    "add_conference_link create_env"
    by (simp_all add: alice_meeting_def new_meeting_def create_env_def quiet_env_def)
  show ?thesis
    using st demo_meeting_end sp
    by (simp add: convert_to_google_event_def Let_def i1 i2 f alice_body_def id_text_def)
qed

lemma schedule_ok:
  assumes "title \<noteq> []" "parse_date date = Some pd" "parse_time time = Some pt"
    and "is_future_datetime (now e) (strftime_date pd) pt"
    and "fst (check_time_conflict e (strftime_date pd) pt None) = None"
    and "create_event e (new_meeting e title (strftime_date pd) pt participants description) = Inr (Some gid)"
    and "gid \<noteq> []"
  shows "success (fst (schedule_meeting e title date time participants description))
     \<and> r_meeting (fst (schedule_meeting e title date time participants description))
         = Some ((new_meeting e title (strftime_date pd) pt participants description)
                   \<lparr>m_google_event_id := Some gid, m_synced_to_google := True\<rparr>)"
proof -
  from assms(2) have d: "date \<noteq> []" using parse_date_empty by auto
  from assms(3) have t: "time \<noteq> []" using parse_time_empty by auto
  obtain calls where c: "check_time_conflict e (strftime_date pd) pt None = (None, calls)"
    using assms(5) by (cases "check_time_conflict e (strftime_date pd) pt None") auto
  show ?thesis
    using assms(1-4,6,7) d t c
    by (simp add: schedule_meeting_def new_meeting_def Let_def truthy_def)
qed

lemma alice_schedule:
  "success (fst (schedule_meeting create_env ''Standup'' ''2025-06-10'' ''14:00''
                   (Some [''alice@example.com'']) ''daily''))
   \<and> r_meeting (fst (schedule_meeting create_env ''Standup'' ''2025-06-10'' ''14:00''
                   (Some [''alice@example.com'']) ''daily''))
       = Some (alice_meeting\<lparr>m_google_event_id := Some ''g2'', m_synced_to_google := True\<rparr>)
   \<and> snd (schedule_meeting create_env ''Standup'' ''2025-06-10'' ''14:00''
                   (Some [''alice@example.com'']) ''daily'')
       = [Get_events (mk_datetime 2025 6 10 0 0) (mk_datetime 2025 6 11 0 0), Create_event alice_meeting]"
proof -
  have n: "now create_env = demo_now" "enable_conflict_detection create_env" "is_enabled create_env"
    by (simp_all add: create_env_def quiet_env_def)
  have ds: "plus_timedelta (mk_datetime 2025 6 10 14 0\<lparr>hour := 0, minute := 0, second := 0, microsecond := 0\<rparr>) 1 0
              = Some (mk_datetime 2025 6 11 0 0)"
    by (simp add: dt_eval)
  have d0: "mk_datetime 2025 6 10 14 0\<lparr>hour := 0, minute := 0, second := 0, microsecond := 0\<rparr>
             = mk_datetime 2025 6 10 0 0"
    by (simp add: mk_datetime_def)
  have ge: "get_events create_env (mk_datetime 2025 6 10 0 0) (mk_datetime 2025 6 11 0 0) = Inr []"
    by (simp add: get_events_def create_env_def quiet_env_def List.map_filter_simps)
  have ch: "check_time_conflict create_env ''2025-06-10'' ''14:00'' None
              = (None, [Get_events (mk_datetime 2025 6 10 0 0) (mk_datetime 2025 6 11 0 0)])"
    using strptime_1400 demo_meeting_end ds ge
    by (simp add: check_time_conflict_def d0 Let_def)
  have ei: "\<And>b. events_insert create_env b = Returns (echo_event b ''g2'' None None)"
    by (simp add: create_env_def)
  have ce: "create_event create_env alice_meeting = Inr (Some ''g2'')"
    by (simp add: create_event_def n alice_convert ei echo_event_def)
  have t: "''Standup'' \<noteq> []" "''g2'' \<noteq> []" by simp_all
  have fu: "is_future_datetime (now create_env) (strftime_date (mk_datetime 2025 6 10 0 0)) ''14:00''"
    using june10_future by (simp add: n strftime_june10)
  have ch': "fst (check_time_conflict create_env (strftime_date (mk_datetime 2025 6 10 0 0)) ''14:00'' None) = None"
    by (simp add: strftime_june10 ch)
  have ce': "create_event create_env
       (new_meeting create_env ''Standup'' (strftime_date (mk_datetime 2025 6 10 0 0)) ''14:00''
          (Some [''alice@example.com'']) ''daily'') = Inr (Some ''g2'')"
    using ce by (simp add: strftime_june10 alice_meeting_def)
  from schedule_ok[OF t(1) parse_date_june10 parse_time_1400 fu ch' ce' t(2)]
       schedule_creates_call[OF t(1) parse_date_june10 parse_time_1400 fu ch',
          of "Some [''alice@example.com'']" "''daily''"]
  show ?thesis
    by (simp add: strftime_june10 alice_meeting_def n ch)
qed

lemma alice_echo_convert:
  "convert_from_google_event (echo_event alice_body ''g2'' None None) = Some alice_fetched"
  by (simp add: echo_event_def alice_body_def alice_fetched_def iso_eval str_eval Let_def)

lemma alice_details:
  "get_meeting_details query_env None None None (Some ''g2'') =
     (\<lparr>success = True, error = None, message = Some ''Found 1 meeting(s) in Google Calendar'',
       r_meeting = None, r_meetings = Some [alice_fetched], r_count = Some 1,
       r_deleted_meeting = None\<rparr>,
      [Get_events demo_now (mk_datetime 2025 7 1 9 0)])"
proof -
  have p: "plus_timedelta demo_now 30 0 = Some (mk_datetime 2025 7 1 9 0)"
    by (simp add: demo_now_def dt_eval)
  have g: "get_events query_env demo_now (mk_datetime 2025 7 1 9 0) = Inr [alice_fetched]"
    by (simp add: get_events_def query_env_def create_env_def quiet_env_def List.map_filter_simps
          alice_echo_convert)
  have n: "now query_env = demo_now" by (simp add: query_env_def create_env_def quiet_env_def)
  have f: "m_google_event_id alice_fetched = Some ''g2''" by (simp add: alice_fetched_def)
  have l: "py_dec (Suc 0) = ''1''"
    by (simp add: py_dec.simps digit_char_def)
  show ?thesis
    unfolding get_meeting_details_def Let_def
    by (simp add: truthy_def n p g f l del: One_nat_def)
qed



end
